theory Spec2Isabelle
  imports Main
begin

section \<open>Python values, dictionaries and exceptions\<close>

text \<open>
  Decoded response bodies are JSON values. A Python \<open>dict\<close> is an association list
  in insertion order; a key is looked up with \<open>map_of\<close>. Numbers are the integers
  (JSON numbers with a fractional part are not part of the model). Strings are lists
  of ASCII characters, and so are byte strings.
\<close>

datatype json =
    JNull
  | JBool bool
  | JInt int
  | JStr string
  | JList "json list"
  | JDict "(string \<times> json) list"

type_synonym pydict = "(string \<times> json) list"

text \<open>Python truthiness of a decoded value (\<open>bool(v)\<close>).\<close>

fun truthy :: "json \<Rightarrow> bool" where
  "truthy JNull = False"
| "truthy (JBool b) = b"
| "truthy (JInt n) = (n \<noteq> 0)"
| "truthy (JStr s) = (s \<noteq> [])"
| "truthy (JList xs) = (xs \<noteq> [])"
| "truthy (JDict kvs) = (kvs \<noteq> [])"

text \<open>
  \<open>v == k\<close> for an integer literal \<open>k\<close>, which is also what a literal pattern
  \<open>case k:\<close> of a \<open>match\<close> statement tests: \<open>True == 1\<close> and \<open>False == 0\<close> hold in Python.
\<close>

fun eq_int :: "json \<Rightarrow> int \<Rightarrow> bool" where
  "eq_int (JInt n) k = (n = k)"
| "eq_int (JBool b) k = ((if b then 1 else 0) = k)"
| "eq_int v k = False"

fun is_dict :: "json \<Rightarrow> bool" where
  "is_dict (JDict d) = True"
| "is_dict v = False"

text \<open>\<open>d.get(k, default)\<close>\<close>

definition dict_get :: "(string \<times> 'v) list \<Rightarrow> string \<Rightarrow> 'v \<Rightarrow> 'v" where
  "dict_get d k dflt = (case map_of d k of None \<Rightarrow> dflt | Some v \<Rightarrow> v)"

text \<open>\<open>d[k] = v\<close>: an existing key keeps its position, a new key is appended.\<close>

fun dict_set :: "(string \<times> 'v) list \<Rightarrow> string \<Rightarrow> 'v \<Rightarrow> (string \<times> 'v) list" where
  "dict_set [] k v = [(k, v)]"
| "dict_set ((k', v') # d) k v = (if k' = k then (k, v) # d else (k', v') # dict_set d k v)"

text \<open>\<open>{**a, **b}\<close> and \<open>a.update(b)\<close>\<close>

definition dict_merge :: "(string \<times> 'v) list \<Rightarrow> (string \<times> 'v) list \<Rightarrow> (string \<times> 'v) list" where
  "dict_merge a b = foldl (\<lambda>d (k, v). dict_set d k v) a b"

datatype errno = EIO | EEXIST | ENOENT | ENOTSUP | ENOSPC | EFBIG | ENOSYS | EBUSY | EINVAL | EISDIR | ENODATA

text \<open>The exception classes raised with an errno and one further argument.\<close>

datatype os_kind =
    P115OSError
  | LoginError
  | AuthenticationError
  | FileExistsError
  | FileNotFoundError
  | NotSupportedError
  | OperationalError
  | BusyOSError
  | IsADirectoryError

datatype payload =
    Body json
  | Message string
  | AbortedWith json

datatype exn =
    Raised os_kind errno payload
  | ValueError string
  | KeyError string
  | TypeError
  | IndexError
  | AttributeError
  | CookieConflict
  | TransportError string

section \<open>Response validation: \<open>check_response\<close>\<close>

text \<open>
  The inner function \<open>check\<close> of \<open>check_response\<close>. Each \<open>match\<close> statement that finds
  no case falls through to the final \<open>raise P115OSError(errno.EIO, resp)\<close>; the
  \<open>elif\<close> chain looks at the first key present only.
\<close>

definition check :: "json \<Rightarrow> exn + json" where
  "check resp =
    (case resp of
       JDict d \<Rightarrow>
         if truthy (dict_get d ''state'' (JBool True)) then Inr resp
         else (case map_of d ''errno'' of
           Some c \<Rightarrow>
             if eq_int c 99 then Inl (Raised LoginError EIO (Body resp))
             else if eq_int c 911 then Inl (Raised AuthenticationError EIO (Body resp))
             else if eq_int c 20004 then Inl (Raised FileExistsError EEXIST (Body resp))
             else if eq_int c 20009 then Inl (Raised FileNotFoundError ENOENT (Body resp))
             else if eq_int c 50003 then Inl (Raised FileNotFoundError ENOENT (Body resp))
             else if eq_int c 90008 then Inl (Raised FileNotFoundError ENOENT (Body resp))
             else if eq_int c 91002 then Inl (Raised NotSupportedError ENOTSUP (Body resp))
             else if eq_int c 91004 then Inl (Raised NotSupportedError ENOTSUP (Body resp))
             else if eq_int c 91005 then Inl (Raised OperationalError ENOSPC (Body resp))
             else if eq_int c 231011 then Inl (Raised FileNotFoundError ENOENT (Body resp))
             else if eq_int c 300104 then Inl (Raised P115OSError EFBIG (Body resp))
             else if eq_int c 980006 then Inl (Raised NotSupportedError ENOSYS (Body resp))
             else if eq_int c 990005 then Inl (Raised BusyOSError EBUSY (Body resp))
             else if eq_int c 990009 then Inl (Raised BusyOSError EBUSY (Body resp))
             else if eq_int c 990023 then Inl (Raised OperationalError ENOTSUP (Body resp))
             else if eq_int c 40100000 then Inl (Raised OperationalError EINVAL (Body resp))
             else if eq_int c 40101004 then Inl (Raised LoginError EIO (Body resp))
             else if eq_int c 40101017 then Inl (Raised AuthenticationError EIO (Body resp))
             else if eq_int c 40101032 then Inl (Raised LoginError EIO (Body resp))
             else Inl (Raised P115OSError EIO (Body resp))
         | None \<Rightarrow> (case map_of d ''errNo'' of
           Some c \<Rightarrow>
             if eq_int c 990001 then Inl (Raised AuthenticationError EIO (Body resp))
             else Inl (Raised P115OSError EIO (Body resp))
         | None \<Rightarrow> (case map_of d ''errcode'' of
           Some c \<Rightarrow>
             if eq_int c 911 then Inl (Raised AuthenticationError EIO (Body resp))
             else Inl (Raised P115OSError EIO (Body resp))
         | None \<Rightarrow> (case map_of d ''code'' of
           Some c \<Rightarrow>
             if eq_int c 99 then Inl (Raised AuthenticationError EIO (Body resp))
             else Inl (Raised P115OSError EIO (Body resp))
         | None \<Rightarrow> (case map_of d ''msg_code'' of
           Some c \<Rightarrow>
             if eq_int c 50028 then Inl (Raised P115OSError EFBIG (Body resp))
             else if eq_int c 70004 then Inl (Raised IsADirectoryError EISDIR (Body resp))
             else if eq_int c 70005 then Inl (Raised FileNotFoundError ENOENT (Body resp))
             else Inl (Raised P115OSError EIO (Body resp))
         | None \<Rightarrow> Inl (Raised P115OSError EIO (Body resp)))))))
     | _ \<Rightarrow> Inl (Raised P115OSError EIO (Body resp)))"

text \<open>
  \<open>check_response\<close> is declared for \<open>dict | Awaitable[dict]\<close> and tells the two apart with
  \<open>isinstance(resp, dict)\<close>: a \<open>dict\<close> is checked at once, in the call. Anything else
  is taken for an awaitable: the call raises nothing and returns a coroutine,
  which awaits the argument and checks what it resolves to. A pending response
  resolves to a body or raises; a decoded value is not awaitable, and awaiting it
  raises \<open>TypeError\<close>.
\<close>

datatype resp_arg =
    Direct json
  | Pending "exn + json"

text \<open>What the call does at once, or what awaiting the returned coroutine does.\<close>

datatype outcome =
    Now "exn + json"
  | Awaited "exn + json"

fun check_response :: "resp_arg \<Rightarrow> outcome" where
  "check_response (Direct v) = (if is_dict v then Now (check v) else Awaited (Inl TypeError))"
| "check_response (Pending r) = Awaited (case r of Inl e \<Rightarrow> Inl e | Inr v \<Rightarrow> check v)"

subsection \<open>The table of the specification\<close>

text \<open>
  The table of section 4.3 of the specification, row by row: field, code, error kind,
  errno; and the priority in which the fields are looked up.
\<close>

definition spec_table :: "(string \<times> int \<times> os_kind \<times> errno) list" where
  "spec_table =
    [(''errno'', 99, LoginError, EIO),
     (''errno'', 911, AuthenticationError, EIO),
     (''errno'', 20004, FileExistsError, EEXIST),
     (''errno'', 20009, FileNotFoundError, ENOENT),
     (''errno'', 50003, FileNotFoundError, ENOENT),
     (''errno'', 90008, FileNotFoundError, ENOENT),
     (''errno'', 91002, NotSupportedError, ENOTSUP),
     (''errno'', 91004, NotSupportedError, ENOTSUP),
     (''errno'', 91005, OperationalError, ENOSPC),
     (''errno'', 231011, FileNotFoundError, ENOENT),
     (''errno'', 300104, P115OSError, EFBIG),
     (''errno'', 980006, NotSupportedError, ENOSYS),
     (''errno'', 990005, BusyOSError, EBUSY),
     (''errno'', 990009, BusyOSError, EBUSY),
     (''errno'', 990023, OperationalError, ENOTSUP),
     (''errno'', 40100000, OperationalError, EINVAL),
     (''errno'', 40101004, LoginError, EIO),
     (''errno'', 40101017, AuthenticationError, EIO),
     (''errno'', 40101032, LoginError, EIO),
     (''errNo'', 990001, AuthenticationError, EIO),
     (''errcode'', 911, AuthenticationError, EIO),
     (''code'', 99, AuthenticationError, EIO),
     (''msg_code'', 50028, P115OSError, EFBIG),
     (''msg_code'', 70004, IsADirectoryError, EISDIR),
     (''msg_code'', 70005, FileNotFoundError, ENOENT)]"

definition spec_priority :: "string list" where
  "spec_priority = [''errno'', ''errNo'', ''errcode'', ''code'', ''msg_code'']"

text \<open>The first field of the priority list that the body has, with its value.\<close>

fun spec_code_field :: "string list \<Rightarrow> pydict \<Rightarrow> (string \<times> json) option" where
  "spec_code_field [] d = None"
| "spec_code_field (f # fs) d =
     (case map_of d f of Some c \<Rightarrow> Some (f, c) | None \<Rightarrow> spec_code_field fs d)"

text \<open>The row of a table for a field and the value found under it.\<close>

fun spec_row :: "(string \<times> int \<times> os_kind \<times> errno) list \<Rightarrow> string \<Rightarrow> json \<Rightarrow> (os_kind \<times> errno) option" where
  "spec_row [] f c = None"
| "spec_row ((f', k, kind, e) # rows) f c =
     (if f' = f \<and> eq_int c k then Some (kind, e) else spec_row rows f c)"

definition spec_generic :: "json \<Rightarrow> exn" where
  "spec_generic body = Raised P115OSError EIO (Body body)"

definition spec_check :: "json \<Rightarrow> exn + json" where
  "spec_check body =
    (case body of
       JDict d \<Rightarrow>
         if truthy (dict_get d ''state'' (JBool True)) then Inr body
         else (case spec_code_field spec_priority d of
                 None \<Rightarrow> Inl (spec_generic body)
               | Some (f, c) \<Rightarrow>
                   (case spec_row spec_table f c of
                      None \<Rightarrow> Inl (spec_generic body)
                    | Some (kind, e) \<Rightarrow> Inl (Raised kind e (Body body))))
     | _ \<Rightarrow> Inl (spec_generic body))"

section \<open>Strings\<close>

text \<open>\<open>str.upper()\<close> and \<open>str.lower()\<close> on ASCII text.\<close>

definition upper_char :: "char \<Rightarrow> char" where
  "upper_char c =
    (case map_of (zip ''abcdefghijklmnopqrstuvwxyz'' ''ABCDEFGHIJKLMNOPQRSTUVWXYZ'') c of
       Some u \<Rightarrow> u | None \<Rightarrow> c)"

definition lower_char :: "char \<Rightarrow> char" where
  "lower_char c =
    (case map_of (zip ''ABCDEFGHIJKLMNOPQRSTUVWXYZ'' ''abcdefghijklmnopqrstuvwxyz'') c of
       Some l \<Rightarrow> l | None \<Rightarrow> c)"

definition upper :: "string \<Rightarrow> string" where
  "upper s = map upper_char s"

definition lower :: "string \<Rightarrow> string" where
  "lower s = map lower_char s"

text \<open>\<open>str(n)\<close> for an integer, as an f-string prints it.\<close>

definition digit_char :: "nat \<Rightarrow> char" where
  "digit_char d = ''0123456789'' ! d"

fun digits_of :: "nat \<Rightarrow> string" where
  "digits_of n = (if n < 10 then [digit_char n] else digits_of (n div 10) @ [digit_char (n mod 10)])"

declare digits_of.simps [simp del]

definition str_int :: "int \<Rightarrow> string" where
  "str_int i = (if i < 0 then CHR ''-'' # digits_of (nat (- i)) else digits_of (nat i))"

text \<open>\<open>v[k]\<close> for a string key: only a \<open>dict\<close> can answer.\<close>

fun getitem :: "json \<Rightarrow> string \<Rightarrow> exn + json" where
  "getitem (JDict d) k = (case map_of d k of None \<Rightarrow> Inl (KeyError k) | Some v \<Rightarrow> Inr v)"
| "getitem v k = Inl TypeError"

section \<open>Upload negotiation: \<open>upload_file_init\<close>\<close>

text \<open>
  One call of \<open>_upload_file_init\<close>, the negotiation request, with the arguments that
  \<open>upload_file_init\<close> passes; \<open>sign_key\<close> and \<open>sign_val\<close> default to the empty string.
\<close>

record init_call =
  ic_filename :: string
  ic_filesize :: int
  ic_filesha1 :: string
  ic_target :: string
  ic_sign_key :: json
  ic_sign_val :: string

text \<open>What \<open>read_range_bytes_or_hash\<close> returns: a digest already computed, or the bytes.\<close>

datatype range_data =
    Digest string
  | Buffer string

text \<open>What the operation does to the outside, in order.\<close>

datatype upload_event =
    Negotiate init_call
  | ReadRange json

definition need_read_range_msg :: string where
  "need_read_range_msg = ''filesize >= 1 MB, thus need pass the `read_range_bytes_or_hash` argument''"

text \<open>\<open>resp["status"] == 7 and resp["statuscode"] == 701\<close>, with its short circuit.\<close>

definition is_sign_check :: "json \<Rightarrow> exn + bool" where
  "is_sign_check resp =
    (case getitem resp ''status'' of
       Inl e \<Rightarrow> Inl e
     | Inr s \<Rightarrow>
         if eq_int s 7 then
           (case getitem resp ''statuscode'' of
              Inl e \<Rightarrow> Inl e
            | Inr sc \<Rightarrow> Inr (eq_int sc 701))
         else Inr False)"

text \<open>The end of \<open>gen_step\<close>: \<open>state\<close> and \<open>data\<close> are stored into the response.\<close>

definition finish_init :: "string \<Rightarrow> string \<Rightarrow> int \<Rightarrow> string \<Rightarrow> int \<Rightarrow> json \<Rightarrow> exn + json" where
  "finish_init target filename filesize filesha1 pid resp =
    (case resp of
       JDict d \<Rightarrow>
         (let d1 = dict_set d ''state'' (JBool True) in
          case map_of d1 ''pickcode'' of
            None \<Rightarrow> Inl (KeyError ''pickcode'')
          | Some pc \<Rightarrow>
              Inr (JDict (dict_set d1 ''data'' (JDict
                [(''target'', JStr target),
                 (''file_name'', JStr filename),
                 (''file_size'', JInt filesize),
                 (''sha1'', JStr filesha1),
                 (''cid'', JInt pid),
                 (''pickcode'', pc)]))))
     | _ \<Rightarrow> Inl TypeError)"

text \<open>
  \<open>upload_file_init\<close>. The parameters \<open>sha1_hexdigest\<close> (\<open>hashlib.sha1(data).hexdigest()\<close>)
  and \<open>srv\<close> (the answer of the \<open>n\<close>-th negotiation request, or the exception it raises)
  stand for what lies outside the function. The result is what the function returns
  or raises, and the events in the order they happened.
\<close>

definition upload_file_init ::
  "(string \<Rightarrow> string) \<Rightarrow> (nat \<Rightarrow> init_call \<Rightarrow> exn + json) \<Rightarrow>
   string \<Rightarrow> int \<Rightarrow> string \<Rightarrow> (json \<Rightarrow> exn + range_data) option \<Rightarrow> int \<Rightarrow>
   (exn + json) \<times> upload_event list" where
  "upload_file_init sha1_hexdigest srv filename filesize filesha1 read_range_bytes_or_hash pid =
    (if filesize \<ge> 2 ^ 20 \<and> read_range_bytes_or_hash = None then
       (Inl (ValueError need_read_range_msg), [])
     else
       let filesha1' = upper filesha1;
           target = ''U_1_'' @ str_int pid;
           call1 = \<lparr>ic_filename = filename, ic_filesize = filesize, ic_filesha1 = filesha1',
                    ic_target = target, ic_sign_key = JStr '''', ic_sign_val = ''''\<rparr>
       in case srv 0 call1 of
            Inl e \<Rightarrow> (Inl e, [Negotiate call1])
          | Inr resp \<Rightarrow>
              (case is_sign_check resp of
                 Inl e \<Rightarrow> (Inl e, [Negotiate call1])
               | Inr False \<Rightarrow>
                   (finish_init target filename filesize filesha1' pid resp, [Negotiate call1])
               | Inr True \<Rightarrow>
                   (case read_range_bytes_or_hash of
                      None \<Rightarrow> (Inl (ValueError need_read_range_msg), [Negotiate call1])
                    | Some read_range \<Rightarrow>
                        (case getitem resp ''sign_key'' of
                           Inl e \<Rightarrow> (Inl e, [Negotiate call1])
                         | Inr sign_key \<Rightarrow>
                             (case getitem resp ''sign_check'' of
                                Inl e \<Rightarrow> (Inl e, [Negotiate call1])
                              | Inr sign_check \<Rightarrow>
                                  (case read_range sign_check of
                                     Inl e \<Rightarrow> (Inl e, [Negotiate call1, ReadRange sign_check])
                                   | Inr data \<Rightarrow>
                                       let sign_val =
                                             (case data of
                                                Digest s \<Rightarrow> upper s
                                              | Buffer b \<Rightarrow> upper (sha1_hexdigest b));
                                           call2 = call1\<lparr>ic_sign_key := sign_key, ic_sign_val := sign_val\<rparr>;
                                           events = [Negotiate call1, ReadRange sign_check, Negotiate call2]
                                       in case srv 1 call2 of
                                            Inl e \<Rightarrow> (Inl e, events)
                                          | Inr resp2 \<Rightarrow>
                                              (finish_init target filename filesize filesha1' pid resp2,
                                               events)))))))"

section \<open>QR code login: \<open>login_with_qrcode\<close>\<close>

datatype login_event =
    RequestToken
  | ShowQrcode json
  | OpenUrl string
  | Poll
  | Print string
  | Exchange json string

fun is_exchange :: "login_event \<Rightarrow> bool" where
  "is_exchange (Exchange uid app) = True"
| "is_exchange e = False"

fun is_poll :: "login_event \<Rightarrow> bool" where
  "is_poll Poll = True"
| "is_poll e = False"

text \<open>\<open>resp["data"].get("status")\<close>: only a \<open>dict\<close> has \<open>get\<close>; a missing key gives \<open>None\<close>.\<close>

definition scan_status :: "json \<Rightarrow> exn + json" where
  "scan_status resp =
    (case getitem resp ''data'' of
       Inl e \<Rightarrow> Inl e
     | Inr data \<Rightarrow>
         (case data of
            JDict d \<Rightarrow> Inr (dict_get d ''status'' JNull)
          | _ \<Rightarrow> Inl AttributeError))"

text \<open>
  The loop \<open>while True\<close> of \<open>login_with_qrcode\<close>, fed with the outcomes of the successive
  calls of \<open>login_qrcode_scan_status\<close>: each either raises an exception or returns a
  response. The loop has no bound of its own: the result \<open>None\<close> says that the
  outcomes given were used up and the loop would poll again. \<open>Some (Inr ())\<close> is the
  \<open>break\<close>, \<open>Some (Inl e)\<close> an exception that leaves the loop.
\<close>

fun poll_loop :: "(exn + json) list \<Rightarrow> (exn + unit) option \<times> login_event list" where
  "poll_loop [] = (None, [])"
| "poll_loop (Inl e # ps) = (case poll_loop ps of (r, evs) \<Rightarrow> (r, Poll # evs))"
| "poll_loop (Inr resp # ps) =
    (case scan_status resp of
       Inl e \<Rightarrow> (Some (Inl e), [Poll])
     | Inr status \<Rightarrow>
         if eq_int status 0 then
           (case poll_loop ps of (r, evs) \<Rightarrow> (r, Poll # Print ''[status=0] qrcode: waiting'' # evs))
         else if eq_int status 1 then
           (case poll_loop ps of (r, evs) \<Rightarrow> (r, Poll # Print ''[status=1] qrcode: scanned'' # evs))
         else if eq_int status 2 then
           (Some (Inr ()), [Poll, Print ''[status=2] qrcode: signed in''])
         else if eq_int status (- 1) then
           (Some (Inl (Raised LoginError EIO (Message ''[status=-1] qrcode: expired''))), [Poll])
         else if eq_int status (- 2) then
           (Some (Inl (Raised LoginError EIO (Message ''[status=-2] qrcode: canceled''))), [Poll])
         else
           (Some (Inl (Raised LoginError EIO (AbortedWith resp))), [Poll]))"

text \<open>
  The loop and what follows it: \<open>if app:\<close> exchanges the uid of the token for the
  login result of that app (\<open>scan_result\<close> stands for \<open>login_qrcode_scan_result\<close>),
  otherwise the token is returned. \<open>app\<close> is \<open>None\<close> or a string.
\<close>

definition poll_and_exchange ::
  "pydict \<Rightarrow> string option \<Rightarrow> (exn + json) list \<Rightarrow> (json \<Rightarrow> string \<Rightarrow> exn + json) \<Rightarrow>
   (exn + json) option \<times> login_event list" where
  "poll_and_exchange qrcode_token app polls scan_result =
    (case poll_loop polls of
       (None, evs) \<Rightarrow> (None, evs)
     | (Some (Inl e), evs) \<Rightarrow> (Some (Inl e), evs)
     | (Some (Inr u), evs) \<Rightarrow>
         (case app of
            None \<Rightarrow> (Some (Inr (JDict qrcode_token)), evs)
          | Some a \<Rightarrow>
              if a = [] then (Some (Inr (JDict qrcode_token)), evs)
              else (case getitem (JDict qrcode_token) ''uid'' of
                      Inl e \<Rightarrow> (Some (Inl e), evs)
                    | Inr uid \<Rightarrow> (Some (scan_result uid a), evs @ [Exchange uid a]))))"

text \<open>\<open>d.pop(k)\<close> without a default.\<close>

definition dict_pop :: "pydict \<Rightarrow> string \<Rightarrow> exn + (json \<times> pydict)" where
  "dict_pop d k =
    (case map_of d k of
       None \<Rightarrow> Inl (KeyError k)
     | Some v \<Rightarrow> Inr (v, filter (\<lambda>kv. fst kv \<noteq> k) d))"

text \<open>
  \<open>login_with_qrcode\<close>: the token is requested, the QR code is shown on the console or
  its address is opened, then the loop runs. \<open>token_resp\<close> is the outcome of
  \<open>login_qrcode_token\<close>. \<open>pop("qrcode")\<close> on a list raises \<open>TypeError\<close>, on any other value
  that is not a \<open>dict\<close> \<open>AttributeError\<close>; the address is the text joined with the uid,
  which raises \<open>TypeError\<close> when the uid is not a \<open>str\<close>.
\<close>

definition login_with_qrcode ::
  "(exn + json) \<Rightarrow> bool \<Rightarrow> string option \<Rightarrow> (exn + json) list \<Rightarrow>
   (json \<Rightarrow> string \<Rightarrow> exn + json) \<Rightarrow> (exn + json) option \<times> login_event list" where
  "login_with_qrcode token_resp console_qrcode app polls scan_result =
    (case token_resp of
       Inl e \<Rightarrow> (Some (Inl e), [RequestToken])
     | Inr resp \<Rightarrow>
         (case getitem resp ''data'' of
            Inl e \<Rightarrow> (Some (Inl e), [RequestToken])
          | Inr data \<Rightarrow>
              (case data of
                 JDict d \<Rightarrow>
                   (case dict_pop d ''qrcode'' of
                      Inl e \<Rightarrow> (Some (Inl e), [RequestToken])
                    | Inr (qrcode, qrcode_token) \<Rightarrow>
                        (case (if console_qrcode then Inr (ShowQrcode qrcode)
                               else (case getitem (JDict qrcode_token) ''uid'' of
                                       Inl e \<Rightarrow> Inl e
                                     | Inr (JStr uid) \<Rightarrow>
                                         Inr (OpenUrl (''https://qrcodeapi.115.com/api/1.0/web/1.0/qrcode?uid='' @ uid))
                                     | Inr uid \<Rightarrow> Inl TypeError)) of
                           Inl e \<Rightarrow> (Some (Inl e), [RequestToken])
                         | Inr shown \<Rightarrow>
                             (case poll_and_exchange qrcode_token app polls scan_result of
                                (r, evs) \<Rightarrow> (r, RequestToken # shown # evs))))
               | JList xs \<Rightarrow> (Some (Inl TypeError), [RequestToken])
               | _ \<Rightarrow> (Some (Inl AttributeError), [RequestToken]))))"

text \<open>A poll outcome for examples: a response that reports the status \<open>s\<close>.\<close>

definition scripted :: "int \<Rightarrow> json" where
  "scripted s = JDict [(''state'', JInt 1), (''data'', JDict [(''msg'', JStr ''''), (''status'', JInt s)])]"

section \<open>Ranged reads: \<open>read_bytes_range\<close> and \<open>read_bytes\<close>\<close>

type_synonym headers = "(string \<times> string) list"

text \<open>
  The \<open>url\<close> argument is a \<open>str\<close>; when it is a \<open>P115URL\<close> it may carry request headers
  under its key \<open>headers\<close>.
\<close>

datatype url_arg =
    Url string
  | P115Url string "headers option"

fun url_text :: "url_arg \<Rightarrow> string" where
  "url_text (Url u) = u"
| "url_text (P115Url u h) = u"

text \<open>\<open>isinstance(url, P115URL) and (headers_extra := url.get("headers"))\<close>\<close>

fun headers_extra :: "url_arg \<Rightarrow> headers option" where
  "headers_extra (Url u) = None"
| "headers_extra (P115Url u None) = None"
| "headers_extra (P115Url u (Some h)) = (if h = [] then None else Some h)"

text \<open>How the response of a request is parsed: \<open>parse=False\<close> gives the raw bytes.\<close>

datatype parse_mode =
    ParseFalse
  | ParseTotalLength

record http_request =
  req_url :: string
  req_method :: string
  req_headers :: headers
  req_parse :: parse_mode

text \<open>
  \<open>read_bytes_range\<close> up to its call of \<open>self.request\<close>: the request it hands over, for
  a caller that passes no further keyword argument than \<open>parse\<close>.
\<close>

definition read_bytes_range :: "url_arg \<Rightarrow> string \<Rightarrow> headers option \<Rightarrow> parse_mode \<Rightarrow> http_request" where
  "read_bytes_range url bytes_range hdrs parse =
    (let h0 = (case hdrs of None \<Rightarrow> [] | Some h \<Rightarrow> h);
         h1 = (case headers_extra url of None \<Rightarrow> h0 | Some extra \<Rightarrow> dict_merge h0 extra);
         h2 = dict_set h1 ''Accept-Encoding'' ''identity'';
         h3 = dict_set h2 ''Range'' (''bytes='' @ bytes_range)
     in \<lparr>req_url = url_text url, req_method = ''GET'', req_headers = h3, req_parse = parse\<rparr>)"

text \<open>
  \<open>get_bytes_range\<close> after the probe, with the probed length: the range to ask
  for, \<open>None\<close> when there is nothing to read.
\<close>

definition range_text :: "int \<Rightarrow> int option \<Rightarrow> string option" where
  "range_text start stop =
    (case stop of
       None \<Rightarrow> Some (str_int start @ ''-'')
     | Some s \<Rightarrow> if start \<ge> s then None else Some (str_int start @ ''-'' @ str_int (s - 1)))"

definition resolve_range :: "int \<Rightarrow> int option \<Rightarrow> int \<Rightarrow> string option" where
  "resolve_range start stop length' =
    (let start1 = (if start < 0 then start + length' else start);
         start2 = (if start1 < 0 then 0 else start1)
     in case stop of
          None \<Rightarrow> Some (str_int start2 @ ''-'')
        | Some s \<Rightarrow> range_text start2 (Some (if s < 0 then s + length' else s)))"

text \<open>\<open>start < 0 or (stop and stop < 0)\<close>\<close>

definition needs_probe :: "int \<Rightarrow> int option \<Rightarrow> bool" where
  "needs_probe start stop = (start < 0 \<or> (case stop of None \<Rightarrow> False | Some s \<Rightarrow> s \<noteq> 0 \<and> s < 0))"

text \<open>
  \<open>read_bytes\<close>. \<open>probe\<close> answers the request whose response is parsed with
  \<open>get_total_length\<close> (an \<open>int\<close> or \<open>None\<close>), \<open>fetch\<close> the request for the bytes; either may
  raise. The result comes with the requests made, in order.
\<close>

definition read_bytes ::
  "(http_request \<Rightarrow> exn + int option) \<Rightarrow> (http_request \<Rightarrow> exn + string) \<Rightarrow>
   url_arg \<Rightarrow> int \<Rightarrow> int option \<Rightarrow> headers option \<Rightarrow> (exn + string) \<times> http_request list" where
  "read_bytes probe fetch url start stop hdrs =
    (let after = (\<lambda>bytes_range reqs.
           case bytes_range of
             None \<Rightarrow> (Inr [], reqs)
           | Some r \<Rightarrow>
               (let q = read_bytes_range url r hdrs ParseFalse in (fetch q, reqs @ [q])))
     in if needs_probe start stop then
          (let p = read_bytes_range url ''-1'' hdrs ParseTotalLength in
           case probe p of
             Inl e \<Rightarrow> (Inl e, [p])
           | Inr None \<Rightarrow> (Inl TypeError, [p])
           | Inr (Some length') \<Rightarrow> after (resolve_range start stop length') [p])
        else after (range_text start stop) [])"

text \<open>Servers for examples: the probe learns the length \<open>n\<close>; every fetch returns \<open>b\<close>.\<close>

definition fixed_length :: "int \<Rightarrow> http_request \<Rightarrow> exn + int option" where
  "fixed_length n q = Inr (Some n)"

definition fixed_body :: "string \<Rightarrow> http_request \<Rightarrow> exn + string" where
  "fixed_body b q = Inr b"

section \<open>The dispatcher: \<open>P115Client.request\<close> and its Cookie header\<close>

text \<open>
  \<open>CRE_115_DOMAIN_match\<close> is \<open>re.compile("https?://(?:[^.]+\.)*115.com").match\<close>: a match
  at the start of the text, nothing is asked of what follows. The group
  \<open>[^.]+\.\<close> can only be a run of characters other than the dot, not empty, with
  the dot that ends it; the dot of \<open>115.com\<close> is not escaped and stands for any
  character but the line feed.
\<close>

fun strip_prefix :: "string \<Rightarrow> string \<Rightarrow> string option" where
  "strip_prefix [] s = Some s"
| "strip_prefix (p # ps) [] = None"
| "strip_prefix (p # ps) (c # cs) = (if p = c then strip_prefix ps cs else None)"

definition match_115_com :: "string \<Rightarrow> bool" where
  "match_115_com s =
    (case strip_prefix ''115'' s of
       None \<Rightarrow> False
     | Some r \<Rightarrow>
         (case r of
            [] \<Rightarrow> False
          | c # r' \<Rightarrow> c \<noteq> CHR 0x0A \<and> strip_prefix ''com'' r' \<noteq> None))"

function match_labels :: "string \<Rightarrow> bool" where
  "match_labels s =
    (if match_115_com s then True
     else if takeWhile (\<lambda>c. c \<noteq> CHR ''.'') s = [] \<or> dropWhile (\<lambda>c. c \<noteq> CHR ''.'') s = [] then False
     else match_labels (tl (dropWhile (\<lambda>c. c \<noteq> CHR ''.'') s)))"
  by pat_completeness auto
termination
proof (relation "measure length")
  show "wf (measure length)" by simp
next
  fix s :: string
  assume "\<not> (takeWhile (\<lambda>c. c \<noteq> CHR ''.'') s = [] \<or> dropWhile (\<lambda>c. c \<noteq> CHR ''.'') s = [])"
  then have ne: "dropWhile (\<lambda>c. c \<noteq> CHR ''.'') s \<noteq> []" by simp
  have "length (dropWhile (\<lambda>c. c \<noteq> CHR ''.'') s) \<le> length s"
    by (rule length_dropWhile_le)
  with ne have "length (tl (dropWhile (\<lambda>c. c \<noteq> CHR ''.'') s)) < length s"
    by (cases "dropWhile (\<lambda>c. c \<noteq> CHR ''.'') s") auto
  then show "(tl (dropWhile (\<lambda>c. c \<noteq> CHR ''.'') s), s) \<in> measure length" by simp
qed

declare match_labels.simps [simp del]

definition CRE_115_DOMAIN_match :: "string \<Rightarrow> bool" where
  "CRE_115_DOMAIN_match url =
    (case strip_prefix ''http'' url of
       None \<Rightarrow> False
     | Some r \<Rightarrow>
         (case strip_prefix ''s://'' r of
            Some r' \<Rightarrow> match_labels r'
          | None \<Rightarrow>
              (case strip_prefix ''://'' r of
                 Some r' \<Rightarrow> match_labels r'
               | None \<Rightarrow> False)))"

text \<open>
  What \<open>request\<close> reads of the client: its default headers, the cookie string of its
  jar, and whether \<open>check_for_relogin\<close> is callable.
\<close>

record client_view =
  cv_headers :: headers
  cv_cookies_str :: string
  cv_relogin :: bool

text \<open>\<open>any(k.lower() == "cookie" for k in headers)\<close>\<close>

definition has_cookie :: "headers \<Rightarrow> bool" where
  "has_cookie h = list_ex (\<lambda>kv. lower (fst kv) = ''cookie'') h"

text \<open>
  The header block of \<open>request\<close>, for the url as it is after \<open>make_url\<close>: \<open>custom\<close> says
  that the caller gave a \<open>request\<close> function, \<open>hdrs\<close> is the caller's \<open>headers\<close> keyword.
  The result is \<open>request_kwargs["headers"]\<close> (\<open>None\<close>: the key is not set) and the local
  variable \<open>headers\<close>, which is the same dictionary when it is not \<open>None\<close>.
\<close>

definition request_headers ::
  "client_view \<Rightarrow> string \<Rightarrow> bool \<Rightarrow> headers option \<Rightarrow> headers option \<times> headers option" where
  "request_headers c url custom hdrs =
    (let need0 = \<not> CRE_115_DOMAIN_match url;
         need_cookie_header = (if \<not> need0 then custom else need0)
     in case hdrs of
          Some h \<Rightarrow>
            (let merged = dict_merge (cv_headers c) h in
             if \<not> need_cookie_header then
               (if \<not> has_cookie merged then (Some merged, None) else (Some merged, Some merged))
             else if \<not> has_cookie merged then
               (let m = dict_set merged ''Cookie'' (cv_cookies_str c) in (Some m, Some m))
             else (Some merged, Some merged))
        | None \<Rightarrow>
            if need_cookie_header then
              (let m = dict_set (cv_headers c) ''Cookie'' (cv_cookies_str c) in (Some m, Some m))
            else (None, None))"

text \<open>
  The headers that the transport receives at the first attempt: with a callable
  \<open>check_for_relogin\<close>, the retry loop stores the cookie string under \<open>Cookie\<close>
  whenever the local \<open>headers\<close> is not \<open>None\<close>.
\<close>

definition sent_headers :: "client_view \<Rightarrow> string \<Rightarrow> bool \<Rightarrow> headers option \<Rightarrow> headers option" where
  "sent_headers c url custom hdrs =
    (case request_headers c url custom hdrs of
       (kw, loc) \<Rightarrow>
         if cv_relogin c \<and> loc \<noteq> None
         then map_option (\<lambda>h. dict_set h ''Cookie'' (cv_cookies_str c)) kw
         else kw)"

text \<open>A client for examples.\<close>

definition example_client :: client_view where
  "example_client =
    \<lparr>cv_headers = [(''Accept'', ''application/json, text/plain, */*''), (''Connection'', ''keep-alive'')],
     cv_cookies_str = ''UID=1_A1_2; CID=c; SEID=s'',
     cv_relogin = False\<rparr>"

section \<open>Attribute normalization: \<open>normalize_attr\<close>\<close>



text \<open>\<open>str.isdecimal()\<close> on ASCII text.\<close>

definition isdecimal :: "string \<Rightarrow> bool" where
  "isdecimal s = (s \<noteq> [] \<and> list_all (\<lambda>c. c \<in> set ''0123456789'') s)"
















text \<open>For examples: \<open>int\<close> on plain decimal text.\<close>

fun decimal_value :: "string \<Rightarrow> nat \<Rightarrow> nat" where
  "decimal_value [] acc = acc"
| "decimal_value (c # cs) acc = decimal_value cs (acc * 10 + (of_char c - 48))"

definition decimal :: "string \<Rightarrow> exn + int" where
  "decimal s = (if isdecimal s then Inr (int (decimal_value s 0)) else Inl (ValueError s))"

section \<open>Cookies and the identity read from them\<close>

record cookie =
  ck_name :: string
  ck_value :: string
  ck_domain :: string
  ck_path :: string

text \<open>
  The jar is \<open>http.cookiejar.CookieJar\<close>: cookies are kept by domain, then by path, then
  by name, each level a dictionary; iterating the jar walks them in that order.
\<close>

type_synonym cookiejar = "(string \<times> (string \<times> (string \<times> cookie) list) list) list"

definition jar_cookies :: "cookiejar \<Rightarrow> cookie list" where
  "jar_cookies j = concat (map (\<lambda>d. concat (map (\<lambda>p. map snd (snd p)) (snd d))) j)"

definition set_cookie :: "cookiejar \<Rightarrow> cookie \<Rightarrow> cookiejar" where
  "set_cookie j c =
    (let c2 = dict_get j (ck_domain c) [];
         c3 = dict_get c2 (ck_path c) []
     in dict_set j (ck_domain c) (dict_set c2 (ck_path c) (dict_set c3 (ck_name c) c)))"

text \<open>\<open>jar.clear(domain, path, name)\<close> for a cookie that the jar has.\<close>

definition clear_cookie :: "cookiejar \<Rightarrow> string \<Rightarrow> string \<Rightarrow> string \<Rightarrow> cookiejar" where
  "clear_cookie j domain pth name =
    map (\<lambda>d. if fst d = domain
               then (fst d, map (\<lambda>p. if fst p = pth
                                       then (fst p, filter (\<lambda>n. fst n \<noteq> name) (snd p))
                                       else p) (snd d))
               else d) j"

text \<open>
  \<open>Cookies.get(name)\<close> of httpx: the value of the cookie of that name, \<open>None\<close> when
  there is none, \<open>CookieConflict\<close> when there are several.
\<close>

definition cookies_get :: "cookiejar \<Rightarrow> string \<Rightarrow> exn + string option" where
  "cookies_get j name =
    (case filter (\<lambda>c. ck_name c = name) (jar_cookies j) of
       [] \<Rightarrow> Inr None
     | [c] \<Rightarrow> Inr (Some (ck_value c))
     | c # c' # cs \<Rightarrow> Inl CookieConflict)"

text \<open>\<open>s.split(sep)\<close> for a separator of one character.\<close>

fun split_on :: "char \<Rightarrow> string \<Rightarrow> string list" where
  "split_on sep [] = [[]]"
| "split_on sep (c # cs) =
    (if c = sep then [] # split_on sep cs
     else (case split_on sep cs of
             [] \<Rightarrow> [[c]]
           | w # ws \<Rightarrow> (c # w) # ws))"

text \<open>
  \<open>str.strip()\<close> and \<open>str.rstrip(";")\<close>. The cookie file is read as latin-1, so a
  character here is a code point below 256; the white space among them is what
  \<open>str.isspace\<close> accepts, with U+0085 and U+00A0.
\<close>

definition is_space :: "char \<Rightarrow> bool" where
  "is_space c = (c \<in> set [CHR 0x09, CHR 0x0A, CHR 0x0B, CHR 0x0C, CHR 0x0D,
                            CHR 0x1C, CHR 0x1D, CHR 0x1E, CHR 0x1F, CHR 0x20,
                            CHR 0x85, CHR 0xA0])"

definition strip :: "string \<Rightarrow> string" where
  "strip s = rev (dropWhile is_space (rev (dropWhile is_space s)))"

definition rstrip_char :: "char \<Rightarrow> string \<Rightarrow> string" where
  "rstrip_char ch s = rev (dropWhile (\<lambda>c. c = ch) (rev s))"

text \<open>
  The client, as far as cookies go: the jar, the values that \<open>cached_property\<close> keeps
  in \<open>__dict__\<close> for \<open>user_id\<close> and \<open>user_key\<close>, and the content of the cookie file when a
  \<open>cookies_path\<close> is set. The modification time of the file is left out.
\<close>

record client =
  jar :: cookiejar
  user_id_cache :: "int option"
  user_key_cache :: "string option"
  cookies_file :: "string option"

text \<open>
  \<open>user_id\<close> is a \<open>cached_property\<close>: a value kept in \<open>__dict__\<close> is returned as it is;
  otherwise the body runs and its result is kept. The result is the value, or the
  exception, with the client after the access.
\<close>

definition user_id_body :: "(string \<Rightarrow> exn + int) \<Rightarrow> cookiejar \<Rightarrow> exn + int" where
  "user_id_body int_of_str j =
    (case cookies_get j ''UID'' of
       Inl e \<Rightarrow> Inl e
     | Inr None \<Rightarrow> Inr 0
     | Inr (Some cookie_uid) \<Rightarrow>
         if cookie_uid \<noteq> [] then int_of_str (hd (split_on CHR ''_'' cookie_uid)) else Inr 0)"

definition user_id :: "(string \<Rightarrow> exn + int) \<Rightarrow> client \<Rightarrow> (exn + int) \<times> client" where
  "user_id int_of_str c =
    (case user_id_cache c of
       Some v \<Rightarrow> (Inr v, c)
     | None \<Rightarrow>
         (case user_id_body int_of_str (jar c) of
            Inl e \<Rightarrow> (Inl e, c)
          | Inr v \<Rightarrow> (Inr v, c\<lparr>user_id_cache := Some v\<rparr>)))"

text \<open>\<open>login_ssoent\<close> is a plain property.\<close>

definition login_ssoent :: "client \<Rightarrow> exn + string option" where
  "login_ssoent c =
    (case cookies_get (jar c) ''UID'' of
       Inl e \<Rightarrow> Inl e
     | Inr None \<Rightarrow> Inr None
     | Inr (Some cookie_uid) \<Rightarrow>
         if cookie_uid \<noteq> [] then
           (case split_on CHR ''_'' cookie_uid of
              a # b # rest \<Rightarrow> Inr (Some b)
            | _ \<Rightarrow> Inl IndexError)
         else Inr None)"

subsection \<open>The setter of \<open>cookies\<close>\<close>

text \<open>What can be assigned: \<open>None\<close>, a string, a mapping from names to values or \<open>None\<close>, cookies.\<close>

datatype cookies_arg =
    CNone
  | CStr string
  | CMapping "(string \<times> string option) list"
  | CCookies "cookie list"

text \<open>\<open>_write_cookies\<close>: nothing without a \<open>cookies_path\<close>.\<close>

definition write_cookies :: "client \<Rightarrow> string \<Rightarrow> client" where
  "write_cookies c text =
    (case cookies_file c of None \<Rightarrow> c | Some old \<Rightarrow> c\<lparr>cookies_file := Some text\<rparr>)"

text \<open>\<open>create_cookie(key, val, domain=".115.com")\<close>\<close>

definition create_cookie :: "string \<Rightarrow> string \<Rightarrow> cookie" where
  "create_cookie key val = \<lparr>ck_name = key, ck_value = val, ck_domain = ''.115.com'', ck_path = ''/''\<rparr>"

text \<open>The loop over a mapping: a truthy value is set, another removes the first cookie of that name.\<close>

fun set_items :: "cookiejar \<Rightarrow> (string \<times> string option) list \<Rightarrow> cookiejar" where
  "set_items j [] = j"
| "set_items j ((key, val) # rest) =
    (if val \<noteq> None \<and> val \<noteq> Some []
     then set_items (set_cookie j (create_cookie key (case val of Some v \<Rightarrow> v | None \<Rightarrow> []))) rest
     else (case filter (\<lambda>c. ck_name c = key) (jar_cookies j) of
             [] \<Rightarrow> set_items j rest
           | c # cs \<Rightarrow> set_items (clear_cookie j (ck_domain c) (ck_path c) (ck_name c)) rest))"

text \<open>
  The end of the setter: the cached \<open>user_id\<close> is dropped and read again, \<open>user_key\<close> is
  dropped when the id changed, and the file is written when the cookie string
  changed. An exception of \<open>user_id\<close> leaves the setter with the jar already changed.
\<close>

definition after_update ::
  "(string \<Rightarrow> exn + int) \<Rightarrow> (cookie list \<Rightarrow> string) \<Rightarrow> string \<Rightarrow> client \<Rightarrow> exn option \<times> client" where
  "after_update int_of_str cookies_str_of cookies_old c =
    (case user_id int_of_str c of
       (Inl e, c1) \<Rightarrow> (Some e, c1)
     | (Inr uid, c1) \<Rightarrow>
         (case user_id int_of_str (c1\<lparr>user_id_cache := None\<rparr>) of
            (Inl e, c2) \<Rightarrow> (Some e, c2)
          | (Inr uid', c2) \<Rightarrow>
              (let c3 = (if uid' \<noteq> uid then c2\<lparr>user_key_cache := None\<rparr> else c2);
                   cookies_new = cookies_str_of (jar_cookies (jar c3))
               in (None, if cookies_old \<noteq> cookies_new then write_cookies c3 cookies_new else c3))))"

text \<open>
  The setter. \<open>cookies_str_of\<close> is \<open>P115Cookies.from_cookiejar\<close> and \<open>str_to_dict\<close> is
  \<open>cookies_str_to_dict\<close>, which may raise; both are defined outside this module. An
  exception of \<open>str_to_dict\<close> leaves the setter before anything is changed.
\<close>

definition set_cookies ::
  "(string \<Rightarrow> exn + int) \<Rightarrow> (cookie list \<Rightarrow> string) \<Rightarrow>
   (string \<Rightarrow> exn + (string \<times> string) list) \<Rightarrow>
   client \<Rightarrow> cookies_arg \<Rightarrow> exn option \<times> client" where
  "set_cookies int_of_str cookies_str_of str_to_dict c cookies =
    (let cookies_old = cookies_str_of (jar_cookies (jar c));
         mapping = (\<lambda>m. if m = [] then (None, c)
                         else after_update int_of_str cookies_str_of cookies_old
                                (c\<lparr>jar := set_items (jar c) m\<rparr>))
     in case cookies of
          CNone \<Rightarrow>
            (let c1 = c\<lparr>jar := []\<rparr>
             in (None, if cookies_old \<noteq> [] then write_cookies c1 [] else c1))
        | CStr s \<Rightarrow>
            (let s' = rstrip_char CHR '';'' (strip s) in
             if s' = [] then (None, c)
             else (case str_to_dict s' of
                     Inl e \<Rightarrow> (Some e, c)
                   | Inr d \<Rightarrow>
                       if d = [] then (None, c)
                       else mapping (map (\<lambda>kv. (fst kv, Some (snd kv))) d)))
        | CMapping m \<Rightarrow> mapping m
        | CCookies cs \<Rightarrow>
            after_update int_of_str cookies_str_of cookies_old (c\<lparr>jar := foldl set_cookie (jar c) cs\<rparr>))"

text \<open>For examples: a cookie string of the cookies under \<open>.115.com\<close>, and a client with one cookie.\<close>

fun join_cookies :: "cookie list \<Rightarrow> string" where
  "join_cookies [] = []"
| "join_cookies (c # cs) =
    (if ck_domain c = ''.115.com''
     then ck_name c @ ''='' @ ck_value c @ (if cs = [] then [] else ''; '' @ join_cookies cs)
     else join_cookies cs)"

definition no_dict :: "string \<Rightarrow> exn + (string \<times> string) list" where
  "no_dict s = Inr []"

definition fresh_client :: client where
  "fresh_client = \<lparr>jar = [], user_id_cache = None, user_key_cache = None, cookies_file = None\<rparr>"

definition uid_client :: client where
  "uid_client = snd (set_cookies decimal join_cookies no_dict fresh_client
                      (CMapping [(''UID'', Some ''1_A1_2''), (''CID'', Some ''c'')]))"

section \<open>Hashing a download: \<open>hash\<close> and \<open>hashes\<close>\<close>

text \<open>A digest argument: a name, or an object or factory, which is passed on as it is.\<close>

datatype digest =
    DName string
  | DCrc32
  | DEd2k
  | DObj nat

fun convert_digest :: "digest \<Rightarrow> digest" where
  "convert_digest (DName s) =
    (if s = ''crc32'' then DCrc32 else if s = ''ed2k'' then DEd2k else DName s)"
| "convert_digest d = d"

text \<open>
  \<open>hash\<close> and \<open>hashes\<close> open the url at \<open>start\<close> and hand the file to \<open>file_digest\<close> or
  \<open>file_mdigest\<close> (\<open>file_digest_async\<close>, \<open>file_mdigest_async\<close> when \<open>async_\<close> is set; the flag is \<open>is_async\<close> here). Opening, the
  length of the file and the digest functions are parameters: \<open>opn\<close>, \<open>file_length\<close>,
  \<open>fd\<close> and \<open>fd_async\<close>. The result of the asynchronous form is what awaiting the
  coroutine gives.
\<close>

definition hash ::
  "bool \<Rightarrow> (string \<Rightarrow> int \<Rightarrow> headers option \<Rightarrow> bool \<Rightarrow> exn + 'f) \<Rightarrow> ('f \<Rightarrow> int) \<Rightarrow>
   ('f \<Rightarrow> digest \<Rightarrow> int option \<Rightarrow> exn + 'r) \<Rightarrow> ('f \<Rightarrow> digest \<Rightarrow> int option \<Rightarrow> exn + 'r) \<Rightarrow>
   string \<Rightarrow> digest \<Rightarrow> int \<Rightarrow> int option \<Rightarrow> headers option \<Rightarrow> exn + 'r" where
  "hash is_async opn file_length fd fd_async url dig start stop hdrs =
    (let dig' = convert_digest dig in
     if is_async then
       (case opn url start hdrs True of
          Inl e \<Rightarrow> Inl e
        | Inr file \<Rightarrow>
            (case stop of
               None \<Rightarrow> fd_async file dig' None
             | Some s \<Rightarrow>
                 (let stop' = (if s < 0 then s + file_length file else s)
                  in fd_async file dig' (Some (max 0 (stop' - start))))))
     else
       (case opn url start hdrs False of
          Inl e \<Rightarrow> Inl e
        | Inr file \<Rightarrow>
            (case stop of
               None \<Rightarrow> fd file dig' None
             | Some s \<Rightarrow>
                 (let stop' = (if s < 0 then s + file_length file else s)
                  in fd file dig' (Some (max 0 (stop' - start)))))))"

text \<open>
  In the asynchronous branch of \<open>hashes\<close> with a \<open>stop\<close>, the call is written
  \<open>file_mdigest_async(file *digests, stop=...)\<close>: its first argument is the product
  \<open>file * digests\<close> of the file reader and a tuple, which raises \<open>TypeError\<close> before
  anything is called.
\<close>

definition hashes ::
  "bool \<Rightarrow> (string \<Rightarrow> int \<Rightarrow> headers option \<Rightarrow> bool \<Rightarrow> exn + 'f) \<Rightarrow> ('f \<Rightarrow> int) \<Rightarrow>
   ('f \<Rightarrow> digest list \<Rightarrow> int option \<Rightarrow> exn + 'r) \<Rightarrow> ('f \<Rightarrow> digest list \<Rightarrow> int option \<Rightarrow> exn + 'r) \<Rightarrow>
   string \<Rightarrow> digest \<Rightarrow> digest list \<Rightarrow> int \<Rightarrow> int option \<Rightarrow> headers option \<Rightarrow> exn + 'r" where
  "hashes is_async opn file_length fmd fmd_async url dig digs start stop hdrs =
    (let digests = convert_digest dig # map convert_digest digs in
     if is_async then
       (case opn url start hdrs True of
          Inl e \<Rightarrow> Inl e
        | Inr file \<Rightarrow>
            (case stop of
               None \<Rightarrow> fmd_async file digests None
             | Some s \<Rightarrow> Inl TypeError))
     else
       (case opn url start hdrs False of
          Inl e \<Rightarrow> Inl e
        | Inr file \<Rightarrow>
            (case stop of
               None \<Rightarrow> fmd file digests None
             | Some s \<Rightarrow>
                 (let stop' = (if s < 0 then s + file_length file else s)
                  in fmd file digests (Some (max 0 (stop' - start)))))))"

text \<open>
  For examples: a download whose content is known. The file is the content from
  \<open>start\<close> on; a digest over some bytes is shown as the pair of the digest and the
  bytes.
\<close>

definition open_content :: "string \<Rightarrow> string \<Rightarrow> int \<Rightarrow> headers option \<Rightarrow> bool \<Rightarrow> exn + string" where
  "open_content content url start hdrs is_async = Inr (drop (nat start) content)"

definition content_length :: "string \<Rightarrow> string \<Rightarrow> int" where
  "content_length content file = int (length content)"

definition mdigest_content :: "string \<Rightarrow> digest list \<Rightarrow> int option \<Rightarrow> exn + (int \<times> (digest \<times> string) list)" where
  "mdigest_content file digests stop =
    (let bytes = (case stop of None \<Rightarrow> file | Some n \<Rightarrow> take (nat n) file)
     in Inr (int (length bytes), map (\<lambda>d. (d, bytes)) digests))"

section \<open>Theorems\<close>

subsection \<open>Response validation\<close>

lemma check_not_dict: "\<not> is_dict v \<Longrightarrow> check v = Inl (Raised P115OSError EIO (Body v))"
  by (cases v) (simp_all add: check_def)

lemma check_state_ok:
  "truthy (dict_get d ''state'' (JBool True)) \<Longrightarrow> check (JDict d) = Inr (JDict d)"
  by (simp add: check_def)

lemma spec_row_errno:
  "spec_row spec_table ''errno'' c =
    (if eq_int c 99 then Some (LoginError, EIO)
     else if eq_int c 911 then Some (AuthenticationError, EIO)
     else if eq_int c 20004 then Some (FileExistsError, EEXIST)
     else if eq_int c 20009 then Some (FileNotFoundError, ENOENT)
     else if eq_int c 50003 then Some (FileNotFoundError, ENOENT)
     else if eq_int c 90008 then Some (FileNotFoundError, ENOENT)
     else if eq_int c 91002 then Some (NotSupportedError, ENOTSUP)
     else if eq_int c 91004 then Some (NotSupportedError, ENOTSUP)
     else if eq_int c 91005 then Some (OperationalError, ENOSPC)
     else if eq_int c 231011 then Some (FileNotFoundError, ENOENT)
     else if eq_int c 300104 then Some (P115OSError, EFBIG)
     else if eq_int c 980006 then Some (NotSupportedError, ENOSYS)
     else if eq_int c 990005 then Some (BusyOSError, EBUSY)
     else if eq_int c 990009 then Some (BusyOSError, EBUSY)
     else if eq_int c 990023 then Some (OperationalError, ENOTSUP)
     else if eq_int c 40100000 then Some (OperationalError, EINVAL)
     else if eq_int c 40101004 then Some (LoginError, EIO)
     else if eq_int c 40101017 then Some (AuthenticationError, EIO)
     else if eq_int c 40101032 then Some (LoginError, EIO)
     else None)"
  unfolding spec_table_def by (simp cong: if_cong)

lemma spec_row_errNo:
  "spec_row spec_table ''errNo'' c = (if eq_int c 990001 then Some (AuthenticationError, EIO) else None)"
  unfolding spec_table_def by simp

lemma spec_row_errcode:
  "spec_row spec_table ''errcode'' c = (if eq_int c 911 then Some (AuthenticationError, EIO) else None)"
  unfolding spec_table_def by simp

lemma spec_row_code:
  "spec_row spec_table ''code'' c = (if eq_int c 99 then Some (AuthenticationError, EIO) else None)"
  unfolding spec_table_def by simp

lemma spec_row_msg_code:
  "spec_row spec_table ''msg_code'' c =
    (if eq_int c 50028 then Some (P115OSError, EFBIG)
     else if eq_int c 70004 then Some (IsADirectoryError, EISDIR)
     else if eq_int c 70005 then Some (FileNotFoundError, ENOENT)
     else None)"
  unfolding spec_table_def by simp


lemma check_eq_spec_check: "check v = spec_check v"
proof (cases v)
  case (JDict d)
  show ?thesis
  proof (cases "truthy (dict_get d ''state'' (JBool True))")
    case True
    with JDict show ?thesis by (simp add: check_def spec_check_def)
  next
    case falsy: False
    show ?thesis
    proof (cases "map_of d ''errno''")
      case (Some c)
      with JDict falsy show ?thesis
        by (simp add: check_def spec_check_def spec_priority_def spec_generic_def spec_row_errno)
    next
      case n1: None
      show ?thesis
      proof (cases "map_of d ''errNo''")
        case (Some c)
        with JDict falsy n1 show ?thesis
          by (simp add: check_def spec_check_def spec_priority_def spec_generic_def spec_row_errNo)
      next
        case n2: None
        show ?thesis
        proof (cases "map_of d ''errcode''")
          case (Some c)
          with JDict falsy n1 n2 show ?thesis
            by (simp add: check_def spec_check_def spec_priority_def spec_generic_def spec_row_errcode)
        next
          case n3: None
          show ?thesis
          proof (cases "map_of d ''code''")
            case (Some c)
            with JDict falsy n1 n2 n3 show ?thesis
              by (simp add: check_def spec_check_def spec_priority_def spec_generic_def spec_row_code)
          next
            case n4: None
            show ?thesis
            proof (cases "map_of d ''msg_code''")
              case (Some c)
              with JDict falsy n1 n2 n3 n4 show ?thesis
                by (simp add: check_def spec_check_def spec_priority_def spec_generic_def spec_row_msg_code)
            next
              case None
              with JDict falsy n1 n2 n3 n4 show ?thesis
                by (simp add: check_def spec_check_def spec_priority_def spec_generic_def)
            qed
          qed
        qed
      qed
    qed
  qed
qed (simp_all add: check_def spec_check_def spec_generic_def)

text \<open>
  What validation does with a body \<open>v\<close> that it reaches, which is a mapping passed
  as it is, or the body that a pending response resolves to: a body that is not a
  mapping raises the generic service error with errno EIO; a mapping whose \<open>state\<close>
  is truthy or absent is returned unchanged; a mapping with a falsy \<open>state\<close> whose
  first present field in the priority errno, errNo, errcode, code, msg_code holds
  a code of the table of section 4.3 raises the error kind and errno of that row;
  every other mapping with a falsy \<open>state\<close> raises the generic service error with
  errno EIO.
\<close>

lemma check_validated_bodies:
  "check_response (Pending (Inr v)) = Awaited (check v)
   \<and> (is_dict v \<longrightarrow> check_response (Direct v) = Now (check v))
   \<and> (\<not> is_dict v \<longrightarrow> check v = Inl (Raised P115OSError EIO (Body v)))
   \<and> (\<forall>d. v = JDict d \<and> truthy (dict_get d ''state'' (JBool True)) \<longrightarrow> check v = Inr v)
   \<and> (\<forall>d f c kind e.
        v = JDict d \<and> \<not> truthy (dict_get d ''state'' (JBool True)) \<and>
        spec_code_field spec_priority d = Some (f, c) \<and>
        spec_row spec_table f c = Some (kind, e) \<longrightarrow>
      check v = Inl (Raised kind e (Body v)))
   \<and> (\<forall>d. v = JDict d \<and> \<not> truthy (dict_get d ''state'' (JBool True)) \<and>
        (spec_code_field spec_priority d = None \<or>
         (\<exists>f c. spec_code_field spec_priority d = Some (f, c) \<and> spec_row spec_table f c = None)) \<longrightarrow>
      check v = Inl (Raised P115OSError EIO (Body v)))"
  by (cases v) (auto simp: check_eq_spec_check spec_check_def spec_generic_def)

lemma check_validated_bodies_examples:
  "check_response (Pending (Inr (JList [JInt 1]))) = Awaited (Inl (Raised P115OSError EIO (Body (JList [JInt 1]))))
   \<and> check_response (Direct (JDict [(''errno'', JInt 20004)])) = Now (Inr (JDict [(''errno'', JInt 20004)]))
   \<and> check_response (Direct (JDict [(''state'', JBool False), (''errno'', JInt 20004)])) =
       Now (Inl (Raised FileExistsError EEXIST (Body (JDict [(''state'', JBool False), (''errno'', JInt 20004)]))))
   \<and> check_response (Direct (JDict [(''state'', JInt 0), (''errno'', JInt 990023)])) =
       Now (Inl (Raised OperationalError ENOTSUP (Body (JDict [(''state'', JInt 0), (''errno'', JInt 990023)]))))
   \<and> check_response (Pending (Inr (JDict [(''state'', JBool False), (''msg_code'', JInt 70004)]))) =
       Awaited (Inl (Raised IsADirectoryError EISDIR (Body (JDict [(''state'', JBool False), (''msg_code'', JInt 70004)]))))
   \<and> check_response (Direct (JDict [(''state'', JBool False), (''errno'', JInt 7), (''errcode'', JInt 911)])) =
       Now (Inl (Raised P115OSError EIO (Body (JDict [(''state'', JBool False), (''errno'', JInt 7), (''errcode'', JInt 911)]))))
   \<and> check_response (Direct (JDict [(''state'', JBool False)])) =
       Now (Inl (Raised P115OSError EIO (Body (JDict [(''state'', JBool False)]))))"
  using check_validated_bodies [of "JList [JInt 1]"]
    check_validated_bodies [of "JDict [(''errno'', JInt 20004)]"]
    check_validated_bodies [of "JDict [(''state'', JBool False), (''errno'', JInt 20004)]"]
    check_validated_bodies [of "JDict [(''state'', JInt 0), (''errno'', JInt 990023)]"]
    check_validated_bodies [of "JDict [(''state'', JBool False), (''msg_code'', JInt 70004)]"]
    check_validated_bodies [of "JDict [(''state'', JBool False), (''errno'', JInt 7), (''errcode'', JInt 911)]"]
    check_validated_bodies [of "JDict [(''state'', JBool False)]"]
  by (simp add: spec_priority_def spec_table_def dict_get_def)

text \<open>
  Claim C1 says that every decoded body passed to \<open>check_response\<close> that is not a
  mapping raises the generic service error with errno EIO. At the body \<open>[1]\<close>, a
  list, the code does so only when the body comes out of a pending response. Passed
  as it is, the same body never reaches the test \<open>if not isinstance(resp, dict)\<close> of
  \<open>check\<close>: the call raises nothing and returns a coroutine, and awaiting that
  raises \<open>TypeError\<close>.
\<close>

theorem check_response_direct_list:
  "check_response (Direct (JList [JInt 1])) = Awaited (Inl TypeError)
   \<and> check_response (Pending (Inr (JList [JInt 1]))) =
       Awaited (Inl (Raised P115OSError EIO (Body (JList [JInt 1]))))
   \<and> check (JList [JInt 1]) = Inl (Raised P115OSError EIO (Body (JList [JInt 1])))"
  by (simp add: check_def)

subsection \<open>Upload negotiation\<close>

text \<open>
  Claim C3. A call of \<open>upload_file_init\<close> with a declared size of at least 1,048,576
  bytes and no \<open>read_range_bytes_or_hash\<close> raises \<open>ValueError\<close> before any request is
  made; with a smaller size the function does not fail at entry: the first
  negotiation request is made.
\<close>

theorem upload_file_init_entry_check:
  "(filesize \<ge> 1048576 \<longrightarrow>
      upload_file_init sha1_hexdigest srv filename filesize filesha1 None pid =
        (Inl (ValueError need_read_range_msg), []))
   \<and> (filesize < 1048576 \<longrightarrow>
      (\<exists>call rest.
         snd (upload_file_init sha1_hexdigest srv filename filesize filesha1 rr pid) =
           Negotiate call # rest))"
  by (auto simp: upload_file_init_def Let_def split: sum.splits bool.splits option.splits)

theorem upload_file_init_entry_check_witness:
  "upload_file_init (\<lambda>b. ''da39'') (\<lambda>n c. Inl (TransportError ''down'')) ''a.bin'' 1048576 ''ab'' None 0 =
     (Inl (ValueError need_read_range_msg), [])
   \<and> (\<exists>call rest.
         snd (upload_file_init (\<lambda>b. ''da39'') (\<lambda>n c. Inl (TransportError ''down'')) ''a.bin'' 1048575 ''ab'' None 0) =
           Negotiate call # rest)"
  using upload_file_init_entry_check
          [of 1048576 "\<lambda>b. ''da39''" "\<lambda>n c. Inl (TransportError ''down'')" "''a.bin''" "''ab''" 0 None]
        upload_file_init_entry_check
          [of 1048575 "\<lambda>b. ''da39''" "\<lambda>n c. Inl (TransportError ''down'')" "''a.bin''" "''ab''" 0 None]
  by simp

text \<open>
  Claim C4. When the first negotiation answers with status 7 and statuscode 701 and
  a \<open>read_range_bytes_or_hash\<close> was given that answers the range of \<open>sign_check\<close>, the
  function reads that one range, takes the returned digest, or the sha1 hex digest
  of the returned bytes, in upper case as \<open>sign_val\<close>, and repeats the negotiation
  once, with the \<open>sign_key\<close> of the response and that \<open>sign_val\<close> and otherwise the
  same arguments; nothing else is read or requested.
\<close>

theorem upload_file_init_sign_check:
  assumes "call1 = \<lparr>ic_filename = filename, ic_filesize = filesize, ic_filesha1 = upper filesha1,
                     ic_target = ''U_1_'' @ str_int pid, ic_sign_key = JStr '''', ic_sign_val = ''''\<rparr>"
    and "srv 0 call1 = Inr resp"
    and "getitem resp ''status'' = Inr status" and "eq_int status 7"
    and "getitem resp ''statuscode'' = Inr statuscode" and "eq_int statuscode 701"
    and "getitem resp ''sign_key'' = Inr sign_key"
    and "getitem resp ''sign_check'' = Inr sign_check"
    and "read_range sign_check = Inr data"
  shows "snd (upload_file_init sha1_hexdigest srv filename filesize filesha1 (Some read_range) pid) =
    [Negotiate call1,
     ReadRange sign_check,
     Negotiate (call1\<lparr>ic_sign_key := sign_key,
                      ic_sign_val := upper (case data of Digest s \<Rightarrow> s | Buffer b \<Rightarrow> sha1_hexdigest b)\<rparr>)]"
proof -
  have chk: "is_sign_check resp = Inr True"
    using assms(3-6) by (simp add: is_sign_check_def)
  show ?thesis
    using assms(1,2,7,8,9) chk
    by (cases data; cases "srv (Suc 0) (call1\<lparr>ic_sign_key := sign_key,
          ic_sign_val := upper (case data of Digest s \<Rightarrow> s | Buffer b \<Rightarrow> sha1_hexdigest b)\<rparr>)")
       (simp_all add: upload_file_init_def Let_def)
qed

theorem upload_file_init_sign_check_witness:
  "snd (upload_file_init (\<lambda>b. ''0a4d'')
         (\<lambda>n c. if n = 0
             then Inr (JDict [(''status'', JInt 7), (''statuscode'', JInt 701),
                              (''sign_key'', JStr ''k1''), (''sign_check'', JStr ''2-5'')])
             else Inr (JDict [(''status'', JInt 2), (''statuscode'', JInt 0), (''pickcode'', JStr ''pc'')]))
         ''a.bin'' 2097152 ''ab12'' (Some (\<lambda>r. Inr (Buffer ''cdef''))) 0) =
    [Negotiate \<lparr>ic_filename = ''a.bin'', ic_filesize = 2097152, ic_filesha1 = ''AB12'',
                 ic_target = ''U_1_0'', ic_sign_key = JStr '''', ic_sign_val = ''''\<rparr>,
     ReadRange (JStr ''2-5''),
     Negotiate \<lparr>ic_filename = ''a.bin'', ic_filesize = 2097152, ic_filesha1 = ''AB12'',
                 ic_target = ''U_1_0'', ic_sign_key = JStr ''k1'', ic_sign_val = ''0A4D''\<rparr>]"
  using upload_file_init_sign_check
    [of "\<lparr>ic_filename = ''a.bin'', ic_filesize = 2097152, ic_filesha1 = ''AB12'',
           ic_target = ''U_1_0'', ic_sign_key = JStr '''', ic_sign_val = ''''\<rparr>"
        "''a.bin''" 2097152 "''ab12''" 0
        "\<lambda>n c. if n = 0
             then Inr (JDict [(''status'', JInt 7), (''statuscode'', JInt 701),
                              (''sign_key'', JStr ''k1''), (''sign_check'', JStr ''2-5'')])
             else Inr (JDict [(''status'', JInt 2), (''statuscode'', JInt 0), (''pickcode'', JStr ''pc'')])"
        "JDict [(''status'', JInt 7), (''statuscode'', JInt 701),
                (''sign_key'', JStr ''k1''), (''sign_check'', JStr ''2-5'')]"
        "JInt 7" "JInt 701" "JStr ''k1''" "JStr ''2-5''"
        "\<lambda>r. Inr (Buffer ''cdef'')" "Buffer ''cdef''" "\<lambda>b. ''0a4d''"]
  by (simp add: upper_def upper_char_def str_int_def digits_of.simps digit_char_def)

subsection \<open>QR code login\<close>

lemma poll_loop_waiting:
  assumes "\<forall>p\<in>set pre. (\<exists>e. p = Inl e) \<or>
             (\<exists>r s. p = Inr r \<and> scan_status r = Inr s \<and> (eq_int s 0 \<or> eq_int s 1))"
  shows "fst (poll_loop (pre @ rest)) = fst (poll_loop rest)
       \<and> filter is_exchange (snd (poll_loop (pre @ rest))) = filter is_exchange (snd (poll_loop rest))
       \<and> length (filter is_poll (snd (poll_loop (pre @ rest)))) =
           length pre + length (filter is_poll (snd (poll_loop rest)))"
  using assms
proof (induction pre)
  case Nil
  show ?case by simp
next
  case (Cons p pre)
  have tl: "\<forall>p\<in>set pre. (\<exists>e. p = Inl e) \<or>
             (\<exists>r s. p = Inr r \<and> scan_status r = Inr s \<and> (eq_int s 0 \<or> eq_int s 1))"
    using Cons.prems by simp
  note ih = Cons.IH [OF tl]
  from Cons.prems consider (exc) e where "p = Inl e"
    | (resp) r s where "p = Inr r" "scan_status r = Inr s" "eq_int s 0 \<or> eq_int s 1"
    by auto
  then show ?case
  proof cases
    case exc
    with ih show ?thesis by (simp add: case_prod_unfold)
  next
    case resp
    with ih show ?thesis by (auto simp: case_prod_unfold)
  qed
qed

lemma poll_loop_no_exchange: "filter is_exchange (snd (poll_loop ps)) = []"
proof (induction ps rule: poll_loop.induct)
  case 1
  show ?case by simp
next
  case (2 e ps)
  then show ?case by (simp add: case_prod_unfold)
next
  case (3 resp ps)
  then show ?case by (auto simp: case_prod_unfold split: sum.splits)
qed

lemma eq_int_2_only: "eq_int s 2 \<Longrightarrow> \<not> eq_int s 0 \<and> \<not> eq_int s 1"
  by (cases s) (auto split: if_splits)

lemma eq_int_m1_only: "eq_int s (- 1) \<Longrightarrow> \<not> eq_int s 0 \<and> \<not> eq_int s 1 \<and> \<not> eq_int s 2"
  by (cases s) (auto split: if_splits)

lemma eq_int_m2_only:
  "eq_int s (- 2) \<Longrightarrow> \<not> eq_int s 0 \<and> \<not> eq_int s 1 \<and> \<not> eq_int s 2 \<and> \<not> eq_int s (- 1)"
  by (cases s) (auto split: if_splits)

text \<open>
  Claim C7. The polling loop of \<open>login_with_qrcode\<close> is fed poll outcomes: first any
  number that raise an exception or report status 0 or 1, then a response with
  status \<open>s\<close>, then any others. Status 0 and 1 make the loop poll on: a response with
  \<open>s\<close> 0 or 1 leaves the result to the outcomes after it. If \<open>s\<close> is 2 the loop ends
  after that poll; without an app the token is returned and nothing is exchanged,
  with an app the uid is exchanged once, after the polls, and the outcome of the
  exchange is the result. If \<open>s\<close> is -1, -2 or none of -2, -1, 0, 1, 2, a
  \<open>LoginError\<close> is raised (expired, canceled and aborted each with its own message)
  and nothing is exchanged.
\<close>

theorem qrcode_login_states:
  assumes "\<forall>p\<in>set pre. (\<exists>e. p = Inl e) \<or>
             (\<exists>r s. p = Inr r \<and> scan_status r = Inr s \<and> (eq_int s 0 \<or> eq_int s 1))"
    and "scan_status resp = Inr s"
  shows "(eq_int s 0 \<or> eq_int s 1 \<longrightarrow>
            fst (poll_and_exchange token app (pre @ Inr resp # rest) scan_result) =
            fst (poll_and_exchange token app rest scan_result))
       \<and> (eq_int s 2 \<and> (app = None \<or> app = Some []) \<longrightarrow>
            fst (poll_and_exchange token app (pre @ Inr resp # rest) scan_result) =
              Some (Inr (JDict token)) \<and>
            filter is_exchange (snd (poll_and_exchange token app (pre @ Inr resp # rest) scan_result)) = [])
       \<and> (\<forall>a uid. eq_int s 2 \<and> app = Some a \<and> a \<noteq> [] \<and> getitem (JDict token) ''uid'' = Inr uid \<longrightarrow>
            fst (poll_and_exchange token app (pre @ Inr resp # rest) scan_result) =
              Some (scan_result uid a) \<and>
            filter is_exchange (snd (poll_and_exchange token app (pre @ Inr resp # rest) scan_result)) =
              [Exchange uid a] \<and>
            last (snd (poll_and_exchange token app (pre @ Inr resp # rest) scan_result)) = Exchange uid a \<and>
            length (filter is_poll (snd (poll_and_exchange token app (pre @ Inr resp # rest) scan_result))) =
              length pre + 1)
       \<and> (eq_int s (- 1) \<longrightarrow>
            poll_and_exchange token app (pre @ Inr resp # rest) scan_result =
              (Some (Inl (Raised LoginError EIO (Message ''[status=-1] qrcode: expired''))),
               snd (poll_loop (pre @ Inr resp # rest))))
       \<and> (eq_int s (- 2) \<longrightarrow>
            poll_and_exchange token app (pre @ Inr resp # rest) scan_result =
              (Some (Inl (Raised LoginError EIO (Message ''[status=-2] qrcode: canceled''))),
               snd (poll_loop (pre @ Inr resp # rest))))
       \<and> (\<not> eq_int s 0 \<and> \<not> eq_int s 1 \<and> \<not> eq_int s 2 \<and> \<not> eq_int s (- 1) \<and> \<not> eq_int s (- 2) \<longrightarrow>
            poll_and_exchange token app (pre @ Inr resp # rest) scan_result =
              (Some (Inl (Raised LoginError EIO (AbortedWith resp))),
               snd (poll_loop (pre @ Inr resp # rest))))
       \<and> (\<not> eq_int s 0 \<and> \<not> eq_int s 1 \<and> \<not> eq_int s 2 \<longrightarrow>
            filter is_exchange (snd (poll_and_exchange token app (pre @ Inr resp # rest) scan_result)) = [])"
proof -
  note w = poll_loop_waiting [OF assms(1), of "Inr resp # rest"]
  have f: "fst (poll_loop (pre @ Inr resp # rest)) = fst (poll_loop (Inr resp # rest))"
    using w by simp
  have p: "length (filter is_poll (snd (poll_loop (pre @ Inr resp # rest)))) =
           length pre + length (filter is_poll (snd (poll_loop (Inr resp # rest))))"
    using w by simp
  have nx: "filter is_exchange (snd (poll_loop (pre @ Inr resp # rest))) = []"
    by (rule poll_loop_no_exchange)
  have r01: "eq_int s 0 \<or> eq_int s 1 \<Longrightarrow>
             fst (poll_loop (pre @ Inr resp # rest)) = fst (poll_loop rest)"
    unfolding f using assms(2) by (auto simp: case_prod_unfold)
  have r2: "eq_int s 2 \<Longrightarrow> fst (poll_loop (pre @ Inr resp # rest)) = Some (Inr ())
              \<and> length (filter is_poll (snd (poll_loop (pre @ Inr resp # rest)))) = length pre + 1"
    unfolding f p using assms(2) eq_int_2_only [of s] by simp
  have rm1: "eq_int s (- 1) \<Longrightarrow> fst (poll_loop (pre @ Inr resp # rest)) =
              Some (Inl (Raised LoginError EIO (Message ''[status=-1] qrcode: expired'')))"
    unfolding f using assms(2) eq_int_m1_only [of s] by simp
  have rm2: "eq_int s (- 2) \<Longrightarrow> fst (poll_loop (pre @ Inr resp # rest)) =
              Some (Inl (Raised LoginError EIO (Message ''[status=-2] qrcode: canceled'')))"
    unfolding f using assms(2) eq_int_m2_only [of s] by simp
  have ro: "\<not> eq_int s 0 \<and> \<not> eq_int s 1 \<and> \<not> eq_int s 2 \<and> \<not> eq_int s (- 1) \<and> \<not> eq_int s (- 2) \<Longrightarrow>
            fst (poll_loop (pre @ Inr resp # rest)) = Some (Inl (Raised LoginError EIO (AbortedWith resp)))"
    unfolding f using assms(2) by simp
  have rf: "\<not> eq_int s 0 \<and> \<not> eq_int s 1 \<and> \<not> eq_int s 2 \<Longrightarrow>
            \<exists>e. fst (poll_loop (pre @ Inr resp # rest)) = Some (Inl e)"
    unfolding f using assms(2) by simp
  show ?thesis
  proof (intro conjI impI allI)
    assume "eq_int s 0 \<or> eq_int s 1"
    then show "fst (poll_and_exchange token app (pre @ Inr resp # rest) scan_result) =
               fst (poll_and_exchange token app rest scan_result)"
      by (simp add: poll_and_exchange_def case_prod_unfold r01
               split: option.splits sum.splits)
  next
    assume a: "eq_int s 2 \<and> (app = None \<or> app = Some [])"
    show "fst (poll_and_exchange token app (pre @ Inr resp # rest) scan_result) = Some (Inr (JDict token))"
      using a r2 by (auto simp: poll_and_exchange_def case_prod_unfold)
    show "filter is_exchange (snd (poll_and_exchange token app (pre @ Inr resp # rest) scan_result)) = []"
      using a r2 nx by (auto simp: poll_and_exchange_def case_prod_unfold)
  next
    fix a uid
    assume a: "eq_int s 2 \<and> app = Some a \<and> a \<noteq> [] \<and> getitem (JDict token) ''uid'' = Inr uid"
    have e: "poll_and_exchange token app (pre @ Inr resp # rest) scan_result =
             (Some (scan_result uid a), snd (poll_loop (pre @ Inr resp # rest)) @ [Exchange uid a])"
      using a r2 by (simp add: poll_and_exchange_def case_prod_unfold del: getitem.simps)
    show "fst (poll_and_exchange token app (pre @ Inr resp # rest) scan_result) = Some (scan_result uid a)"
      by (simp add: e)
    show "filter is_exchange (snd (poll_and_exchange token app (pre @ Inr resp # rest) scan_result)) =
            [Exchange uid a]"
      by (simp add: e nx)
    show "last (snd (poll_and_exchange token app (pre @ Inr resp # rest) scan_result)) = Exchange uid a"
      by (simp add: e)
    show "length (filter is_poll (snd (poll_and_exchange token app (pre @ Inr resp # rest) scan_result))) =
            length pre + 1"
      unfolding e using r2 a by simp
  next
    assume a: "eq_int s (- 1)"
    show "poll_and_exchange token app (pre @ Inr resp # rest) scan_result =
            (Some (Inl (Raised LoginError EIO (Message ''[status=-1] qrcode: expired''))),
             snd (poll_loop (pre @ Inr resp # rest)))"
      by (simp add: poll_and_exchange_def case_prod_unfold rm1 [OF a])
  next
    assume a: "eq_int s (- 2)"
    show "poll_and_exchange token app (pre @ Inr resp # rest) scan_result =
            (Some (Inl (Raised LoginError EIO (Message ''[status=-2] qrcode: canceled''))),
             snd (poll_loop (pre @ Inr resp # rest)))"
      by (simp add: poll_and_exchange_def case_prod_unfold rm2 [OF a])
  next
    assume a: "\<not> eq_int s 0 \<and> \<not> eq_int s 1 \<and> \<not> eq_int s 2 \<and> \<not> eq_int s (- 1) \<and> \<not> eq_int s (- 2)"
    show "poll_and_exchange token app (pre @ Inr resp # rest) scan_result =
            (Some (Inl (Raised LoginError EIO (AbortedWith resp))),
             snd (poll_loop (pre @ Inr resp # rest)))"
      by (simp add: poll_and_exchange_def case_prod_unfold ro [OF a])
  next
    assume a: "\<not> eq_int s 0 \<and> \<not> eq_int s 1 \<and> \<not> eq_int s 2"
    from rf [OF a] obtain e where e: "fst (poll_loop (pre @ Inr resp # rest)) = Some (Inl e)" by blast
    show "filter is_exchange (snd (poll_and_exchange token app (pre @ Inr resp # rest) scan_result)) = []"
      by (simp add: poll_and_exchange_def case_prod_unfold e nx)
  qed
qed

theorem qrcode_login_states_witness:
  "fst (poll_and_exchange [(''uid'', JStr ''u1'')] (Some ''web'')
          [Inr (scripted 0), Inr (scripted 2)] (\<lambda>uid a. Inr (JDict [(''app'', JStr a)]))) =
     fst (poll_and_exchange [(''uid'', JStr ''u1'')] (Some ''web'')
          [Inr (scripted 2)] (\<lambda>uid a. Inr (JDict [(''app'', JStr a)])))
   \<and> fst (poll_and_exchange [(''uid'', JStr ''u1'')] None
          [Inr (scripted 0), Inr (scripted 1), Inr (scripted 2)] (\<lambda>uid a. Inr (JDict [(''app'', JStr a)]))) =
       Some (Inr (JDict [(''uid'', JStr ''u1'')]))
   \<and> fst (poll_and_exchange [(''uid'', JStr ''u1'')] (Some ''web'')
          [Inr (scripted 0), Inl (TransportError ''timeout''), Inr (scripted 1), Inr (scripted 2), Inr (scripted (- 1))]
          (\<lambda>uid a. Inr (JDict [(''app'', JStr a)]))) =
       Some (Inr (JDict [(''app'', JStr ''web'')]))
   \<and> filter is_exchange (snd (poll_and_exchange [(''uid'', JStr ''u1'')] (Some ''web'')
          [Inr (scripted 0), Inl (TransportError ''timeout''), Inr (scripted 1), Inr (scripted 2), Inr (scripted (- 1))]
          (\<lambda>uid a. Inr (JDict [(''app'', JStr a)])))) =
       [Exchange (JStr ''u1'') ''web'']
   \<and> fst (poll_and_exchange [(''uid'', JStr ''u1'')] (Some ''web'')
          [Inr (scripted 0), Inr (scripted (- 1))] (\<lambda>uid a. Inr (JDict [(''app'', JStr a)]))) =
       Some (Inl (Raised LoginError EIO (Message ''[status=-1] qrcode: expired'')))
   \<and> fst (poll_and_exchange [(''uid'', JStr ''u1'')] (Some ''web'')
          [Inr (scripted 1), Inr (scripted (- 2))] (\<lambda>uid a. Inr (JDict [(''app'', JStr a)]))) =
       Some (Inl (Raised LoginError EIO (Message ''[status=-2] qrcode: canceled'')))
   \<and> fst (poll_and_exchange [(''uid'', JStr ''u1'')] (Some ''web'')
          [Inr (scripted 7)] (\<lambda>uid a. Inr (JDict [(''app'', JStr a)]))) =
       Some (Inl (Raised LoginError EIO (AbortedWith (scripted 7))))
   \<and> filter is_exchange (snd (poll_and_exchange [(''uid'', JStr ''u1'')] (Some ''web'')
          [Inr (scripted 7)] (\<lambda>uid a. Inr (JDict [(''app'', JStr a)])))) = []"
  using
    qrcode_login_states [where pre = "[]" and resp = "scripted 0" and s = "JInt 0"
      and token = "[(''uid'', JStr ''u1'')]" and app = "Some ''web''" and rest = "[Inr (scripted 2)]"
      and scan_result = "\<lambda>uid a. Inr (JDict [(''app'', JStr a)])"]
    qrcode_login_states [where pre = "[Inr (scripted 0), Inr (scripted 1)]" and resp = "scripted 2"
      and s = "JInt 2" and token = "[(''uid'', JStr ''u1'')]" and app = None and rest = "[]"
      and scan_result = "\<lambda>uid a. Inr (JDict [(''app'', JStr a)])"]
    qrcode_login_states [where pre = "[Inr (scripted 0), Inl (TransportError ''timeout''), Inr (scripted 1)]"
      and resp = "scripted 2" and s = "JInt 2" and token = "[(''uid'', JStr ''u1'')]"
      and app = "Some ''web''" and rest = "[Inr (scripted (- 1))]"
      and scan_result = "\<lambda>uid a. Inr (JDict [(''app'', JStr a)])"]
    qrcode_login_states [where pre = "[Inr (scripted 0)]" and resp = "scripted (- 1)" and s = "JInt (- 1)"
      and token = "[(''uid'', JStr ''u1'')]" and app = "Some ''web''" and rest = "[]"
      and scan_result = "\<lambda>uid a. Inr (JDict [(''app'', JStr a)])"]
    qrcode_login_states [where pre = "[Inr (scripted 1)]" and resp = "scripted (- 2)" and s = "JInt (- 2)"
      and token = "[(''uid'', JStr ''u1'')]" and app = "Some ''web''" and rest = "[]"
      and scan_result = "\<lambda>uid a. Inr (JDict [(''app'', JStr a)])"]
    qrcode_login_states [where pre = "[]" and resp = "scripted 7" and s = "JInt 7"
      and token = "[(''uid'', JStr ''u1'')]" and app = "Some ''web''" and rest = "[]"
      and scan_result = "\<lambda>uid a. Inr (JDict [(''app'', JStr a)])"]
  by (simp add: scripted_def scan_status_def dict_get_def)

subsection \<open>Ranged reads\<close>

lemma map_of_dict_set_same: "map_of (dict_set d k v) k = Some v"
  by (induction d) auto

lemma read_bytes_range_Range:
  "map_of (req_headers (read_bytes_range url r hdrs parse)) ''Range'' = Some (''bytes='' @ r)"
  by (simp add: read_bytes_range_def Let_def map_of_dict_set_same)

lemma needs_probe_iff: "needs_probe start stop \<longleftrightarrow> start < 0 \<or> (\<exists>s. stop = Some s \<and> s < 0)"
  by (auto simp: needs_probe_def split: option.splits)

text \<open>
  Claim C5, as the code has it. When \<open>start\<close> or \<open>stop\<close> is negative, \<open>read_bytes\<close> first
  makes one request with the header \<open>Range: bytes=-1\<close>, parsed for the total length.
  If that gives the length \<open>L\<close>, a negative \<open>start\<close> becomes \<open>start + L\<close>, and 0 if that
  is still negative; a negative \<open>stop\<close> becomes \<open>stop + L\<close>. Without \<open>stop\<close> exactly one
  data request follows, for the range from the resolved start on; so \<open>start = -10\<close>
  asks for \<open>{L-10}-\<close> when \<open>L\<close> is at least 10, and for \<open>0-\<close> when it is less. With a
  \<open>stop\<close>, if the resolved start is not below the resolved stop the result is the
  empty byte string and no data request is made; otherwise exactly one data
  request follows, for the range from the resolved start to the resolved stop
  minus one.
\<close>

theorem read_bytes_negative_offsets:
  assumes "start < 0 \<or> (\<exists>s. stop = Some s \<and> s < 0)"
    and "probe (read_bytes_range url ''-1'' hdrs ParseTotalLength) = Inr (Some L)"
  shows "map_of (req_headers (read_bytes_range url ''-1'' hdrs ParseTotalLength)) ''Range'' = Some ''bytes=-1''
    \<and> (stop = None \<longrightarrow>
          read_bytes probe fetch url start stop hdrs =
            (fetch (read_bytes_range url
                      (str_int (max 0 (if start < 0 then start + L else start)) @ ''-'') hdrs ParseFalse),
             [read_bytes_range url ''-1'' hdrs ParseTotalLength,
              read_bytes_range url
                (str_int (max 0 (if start < 0 then start + L else start)) @ ''-'') hdrs ParseFalse]))
    \<and> (start = - 10 \<and> stop = None \<and> L \<ge> 10 \<longrightarrow>
          snd (read_bytes probe fetch url start stop hdrs) =
            [read_bytes_range url ''-1'' hdrs ParseTotalLength,
             read_bytes_range url (str_int (L - 10) @ ''-'') hdrs ParseFalse])
    \<and> (start = - 10 \<and> stop = None \<and> L < 10 \<longrightarrow>
          snd (read_bytes probe fetch url start stop hdrs) =
            [read_bytes_range url ''-1'' hdrs ParseTotalLength,
             read_bytes_range url ''0-'' hdrs ParseFalse])
    \<and> (\<forall>s. stop = Some s \<and>
            max 0 (if start < 0 then start + L else start) \<ge> (if s < 0 then s + L else s) \<longrightarrow>
          read_bytes probe fetch url start stop hdrs =
            (Inr [], [read_bytes_range url ''-1'' hdrs ParseTotalLength]))
    \<and> (\<forall>s. stop = Some s \<and>
            max 0 (if start < 0 then start + L else start) < (if s < 0 then s + L else s) \<longrightarrow>
          read_bytes probe fetch url start stop hdrs =
            (fetch (read_bytes_range url
                      (str_int (max 0 (if start < 0 then start + L else start)) @ ''-'' @
                       str_int ((if s < 0 then s + L else s) - 1)) hdrs ParseFalse),
             [read_bytes_range url ''-1'' hdrs ParseTotalLength,
              read_bytes_range url
                (str_int (max 0 (if start < 0 then start + L else start)) @ ''-'' @
                 str_int ((if s < 0 then s + L else s) - 1)) hdrs ParseFalse]))"
proof -
  have np: "needs_probe start stop"
    using assms(1) by (simp add: needs_probe_iff)
  have m: "max 0 (if start < 0 then start + L else start) =
           (if (if start < 0 then start + L else start) < 0 then 0
            else (if start < 0 then start + L else start))"
    by (simp add: max_def)
  have z: "str_int 0 = ''0''"
    by (simp add: str_int_def digits_of.simps digit_char_def)
  have none: "stop = None \<Longrightarrow>
          read_bytes probe fetch url start stop hdrs =
            (fetch (read_bytes_range url
                      (str_int (max 0 (if start < 0 then start + L else start)) @ ''-'') hdrs ParseFalse),
             [read_bytes_range url ''-1'' hdrs ParseTotalLength,
              read_bytes_range url
                (str_int (max 0 (if start < 0 then start + L else start)) @ ''-'') hdrs ParseFalse])"
    unfolding m using np assms(2)
    by (simp add: read_bytes_def resolve_range_def Let_def)
  show ?thesis
  proof (intro conjI impI allI)
    show "map_of (req_headers (read_bytes_range url ''-1'' hdrs ParseTotalLength)) ''Range'' = Some ''bytes=-1''"
      using read_bytes_range_Range [of url "''-1''" hdrs ParseTotalLength] by simp
  next
    assume "stop = None"
    then show "read_bytes probe fetch url start stop hdrs =
            (fetch (read_bytes_range url
                      (str_int (max 0 (if start < 0 then start + L else start)) @ ''-'') hdrs ParseFalse),
             [read_bytes_range url ''-1'' hdrs ParseTotalLength,
              read_bytes_range url
                (str_int (max 0 (if start < 0 then start + L else start)) @ ''-'') hdrs ParseFalse])"
      by (rule none)
  next
    assume a: "start = - 10 \<and> stop = None \<and> L \<ge> 10"
    then have "max 0 (if start < 0 then start + L else start) = L - 10" by simp
    with none a show "snd (read_bytes probe fetch url start stop hdrs) =
            [read_bytes_range url ''-1'' hdrs ParseTotalLength,
             read_bytes_range url (str_int (L - 10) @ ''-'') hdrs ParseFalse]"
      by simp
  next
    assume a: "start = - 10 \<and> stop = None \<and> L < 10"
    then have "max 0 (if start < 0 then start + L else start) = 0" by simp
    with none a z show "snd (read_bytes probe fetch url start stop hdrs) =
            [read_bytes_range url ''-1'' hdrs ParseTotalLength,
             read_bytes_range url ''0-'' hdrs ParseFalse]"
      by simp
  next
    fix s
    assume a: "stop = Some s \<and>
            max 0 (if start < 0 then start + L else start) \<ge> (if s < 0 then s + L else s)"
    then show "read_bytes probe fetch url start stop hdrs =
            (Inr [], [read_bytes_range url ''-1'' hdrs ParseTotalLength])"
      unfolding m using np assms(2)
      by (simp add: read_bytes_def resolve_range_def range_text_def Let_def)
  next
    fix s
    assume a: "stop = Some s \<and>
            max 0 (if start < 0 then start + L else start) < (if s < 0 then s + L else s)"
    then show "read_bytes probe fetch url start stop hdrs =
            (fetch (read_bytes_range url
                      (str_int (max 0 (if start < 0 then start + L else start)) @ ''-'' @
                       str_int ((if s < 0 then s + L else s) - 1)) hdrs ParseFalse),
             [read_bytes_range url ''-1'' hdrs ParseTotalLength,
              read_bytes_range url
                (str_int (max 0 (if start < 0 then start + L else start)) @ ''-'' @
                 str_int ((if s < 0 then s + L else s) - 1)) hdrs ParseFalse])"
      unfolding m using np assms(2)
      by (simp add: read_bytes_def resolve_range_def range_text_def Let_def)
  qed
qed

theorem read_bytes_negative_offsets_witness:
  "map req_headers (snd (read_bytes (fixed_length 400) (fixed_body ''xy'') (Url ''u'') (- 10) None None)) =
     [[(''Accept-Encoding'', ''identity''), (''Range'', ''bytes=-1'')],
      [(''Accept-Encoding'', ''identity''), (''Range'', ''bytes=390-'')]]
   \<and> map req_headers (snd (read_bytes (fixed_length 4) (fixed_body ''xy'') (Url ''u'') (- 10) None None)) =
     [[(''Accept-Encoding'', ''identity''), (''Range'', ''bytes=-1'')],
      [(''Accept-Encoding'', ''identity''), (''Range'', ''bytes=0-'')]]
   \<and> read_bytes (fixed_length 50) (fixed_body ''xy'') (Url ''u'') (- 5) (Some (- 100)) None =
     (Inr [], [\<lparr>req_url = ''u'', req_method = ''GET'',
                 req_headers = [(''Accept-Encoding'', ''identity''), (''Range'', ''bytes=-1'')],
                 req_parse = ParseTotalLength\<rparr>])
   \<and> map req_headers (snd (read_bytes (fixed_length 50) (fixed_body ''xy'') (Url ''u'') 3 (Some (- 7)) None)) =
     [[(''Accept-Encoding'', ''identity''), (''Range'', ''bytes=-1'')],
      [(''Accept-Encoding'', ''identity''), (''Range'', ''bytes=3-42'')]]"
  using
    read_bytes_negative_offsets [where start = "- 10" and stop = None and probe = "fixed_length 400"
      and fetch = "fixed_body ''xy''" and url = "Url ''u''" and hdrs = None and L = 400]
    read_bytes_negative_offsets [where start = "- 10" and stop = None and probe = "fixed_length 4"
      and fetch = "fixed_body ''xy''" and url = "Url ''u''" and hdrs = None and L = 4]
    read_bytes_negative_offsets [where start = "- 5" and stop = "Some (- 100)" and probe = "fixed_length 50"
      and fetch = "fixed_body ''xy''" and url = "Url ''u''" and hdrs = None and L = 50]
    read_bytes_negative_offsets [where start = 3 and stop = "Some (- 7)" and probe = "fixed_length 50"
      and fetch = "fixed_body ''xy''" and url = "Url ''u''" and hdrs = None and L = 50]
  by (simp add: fixed_length_def fixed_body_def read_bytes_range_def Let_def
        str_int_def digits_of.simps digit_char_def)

text \<open>
  Against a content of 4 bytes, \<open>start = -10\<close> without \<open>stop\<close> does not ask for the range
  \<open>{L-10}-\<close>, which would be \<open>-6-\<close>: the data request asks for \<open>0-\<close>.
\<close>

theorem read_bytes_short_content_counterexample:
  "snd (read_bytes (fixed_length 4) (fixed_body ''abcd'') (Url ''u'') (- 10) None None) \<noteq>
     [read_bytes_range (Url ''u'') ''-1'' None ParseTotalLength,
      read_bytes_range (Url ''u'') (str_int (4 - 10) @ ''-'') None ParseFalse]
   \<and> map_of (req_headers (last (snd (read_bytes (fixed_length 4) (fixed_body ''abcd'') (Url ''u'') (- 10) None None))))
        ''Range'' = Some ''bytes=0-''"
  by (simp add: read_bytes_def needs_probe_def resolve_range_def fixed_length_def fixed_body_def
        read_bytes_range_def Let_def str_int_def digits_of.simps digit_char_def)

subsection \<open>The Cookie header of the dispatcher\<close>

lemma dict_set_idem: "dict_set (dict_set d k v) k v = dict_set d k v"
  by (induction d) auto

text \<open>
  Claim C2, as the code has it. \<open>request\<close> forces the Cookie header when the url does
  not match the pattern of the 115 domain, and also when the caller gave a
  transport function of its own. Without caller headers, the current cookie
  string is then stored under \<open>Cookie\<close> in a copy of the client's headers,
  whatever they hold. With caller headers, the client's headers are merged with
  them, and the cookie string is stored under \<open>Cookie\<close> unless the merged headers
  already have a cookie entry in any letter case. When the url matches and the
  default transport is used, no Cookie header is added: without caller headers no
  headers are passed at all, with caller headers the merged ones are passed as
  they are. This is for a client without a relogin check. With a callable
  \<open>check_for_relogin\<close> the retry loop stores the cookie string under \<open>Cookie\<close> in every
  header dictionary that was forced or already had a cookie entry, also over the
  caller's own value.
\<close>

theorem request_cookie_header_policy:
  "(\<not> cv_relogin c \<and> (\<not> CRE_115_DOMAIN_match url \<or> custom) \<longrightarrow>
      sent_headers c url custom None = Some (dict_set (cv_headers c) ''Cookie'' (cv_cookies_str c))
      \<and> (\<forall>h. sent_headers c url custom (Some h) =
            Some (if has_cookie (dict_merge (cv_headers c) h) then dict_merge (cv_headers c) h
                  else dict_set (dict_merge (cv_headers c) h) ''Cookie'' (cv_cookies_str c))))
   \<and> (\<not> cv_relogin c \<and> CRE_115_DOMAIN_match url \<and> \<not> custom \<longrightarrow>
      sent_headers c url custom None = None
      \<and> (\<forall>h. sent_headers c url custom (Some h) = Some (dict_merge (cv_headers c) h)))
   \<and> (cv_relogin c \<and> (\<not> CRE_115_DOMAIN_match url \<or> custom) \<longrightarrow>
      sent_headers c url custom None = Some (dict_set (cv_headers c) ''Cookie'' (cv_cookies_str c))
      \<and> (\<forall>h. sent_headers c url custom (Some h) =
            Some (dict_set (dict_merge (cv_headers c) h) ''Cookie'' (cv_cookies_str c))))
   \<and> (cv_relogin c \<and> CRE_115_DOMAIN_match url \<and> \<not> custom \<longrightarrow>
      sent_headers c url custom None = None
      \<and> (\<forall>h. sent_headers c url custom (Some h) =
            Some (if has_cookie (dict_merge (cv_headers c) h)
                  then dict_set (dict_merge (cv_headers c) h) ''Cookie'' (cv_cookies_str c)
                  else dict_merge (cv_headers c) h)))"
  by (auto simp: sent_headers_def request_headers_def Let_def dict_set_idem)

theorem request_cookie_header_policy_witness:
  "sent_headers example_client ''https://v.anxia.com/site/files'' False None =
     Some [(''Accept'', ''application/json, text/plain, */*''), (''Connection'', ''keep-alive''),
           (''Cookie'', ''UID=1_A1_2; CID=c; SEID=s'')]
   \<and> sent_headers example_client ''https://webapi.115.com/files'' True (Some [(''COOKIE'', ''UID=9'')]) =
     Some [(''Accept'', ''application/json, text/plain, */*''), (''Connection'', ''keep-alive''),
           (''COOKIE'', ''UID=9'')]
   \<and> sent_headers example_client ''https://webapi.115.com/files'' False None = None
   \<and> sent_headers example_client ''https://webapi.115.com/files'' False (Some [(''Accept'', ''*/*'')]) =
     Some [(''Accept'', ''*/*''), (''Connection'', ''keep-alive'')]
   \<and> sent_headers (example_client\<lparr>cv_relogin := True\<rparr>) ''https://webapi.115.com/files'' True
        (Some [(''Cookie'', ''UID=9'')]) =
     Some [(''Accept'', ''application/json, text/plain, */*''), (''Connection'', ''keep-alive''),
           (''Cookie'', ''UID=1_A1_2; CID=c; SEID=s'')]
   \<and> sent_headers (example_client\<lparr>cv_relogin := True\<rparr>) ''https://webapi.115.com/files'' False None = None"
  using
    request_cookie_header_policy [of example_client "''https://v.anxia.com/site/files''" False]
    request_cookie_header_policy [of example_client "''https://webapi.115.com/files''" True]
    request_cookie_header_policy [of example_client "''https://webapi.115.com/files''" False]
    request_cookie_header_policy [of "example_client\<lparr>cv_relogin := True\<rparr>" "''https://webapi.115.com/files''" True]
    request_cookie_header_policy [of "example_client\<lparr>cv_relogin := True\<rparr>" "''https://webapi.115.com/files''" False]
  by (simp add: example_client_def CRE_115_DOMAIN_match_def match_labels.simps match_115_com_def
        has_cookie_def lower_def lower_char_def dict_merge_def)

text \<open>
  The claim has it the other way round. For a url outside the 115 domain and the
  default transport, the Cookie header is forced; for a url of the 115 domain and
  the default transport, nothing is injected.
\<close>

theorem request_cookie_header_counterexample:
  "\<not> CRE_115_DOMAIN_match ''https://v.anxia.com/site/files''
   \<and> sent_headers example_client ''https://v.anxia.com/site/files'' False None =
     Some [(''Accept'', ''application/json, text/plain, */*''), (''Connection'', ''keep-alive''),
           (''Cookie'', ''UID=1_A1_2; CID=c; SEID=s'')]
   \<and> CRE_115_DOMAIN_match ''https://webapi.115.com/files''
   \<and> sent_headers example_client ''https://webapi.115.com/files'' False None = None"
  by (simp add: sent_headers_def request_headers_def Let_def example_client_def
        CRE_115_DOMAIN_match_def match_labels.simps match_115_com_def)

subsection \<open>Attribute normalization\<close>























subsection \<open>Cookies and identity\<close>

lemma strip_all_space: "list_all is_space s \<Longrightarrow> strip s = []"
proof -
  assume "list_all is_space s"
  then have "dropWhile is_space s = []"
    by (simp add: list_all_iff dropWhile_eq_Nil_conv)
  then show ?thesis by (simp add: strip_def del: dropWhile_eq_Nil_conv)
qed

lemma jar_write_cookies: "jar (write_cookies c t) = jar c"
  by (simp add: write_cookies_def split: option.splits)

lemma set_cookies_None_jar: "jar (snd (set_cookies ios csof s2d c CNone)) = []"
  by (simp add: set_cookies_def Let_def jar_write_cookies)

lemma set_cookies_empty_str:
  "rstrip_char CHR '';'' (strip s) = [] \<Longrightarrow> set_cookies ios csof s2d c (CStr s) = (None, c)"
  by (simp add: set_cookies_def Let_def)

lemma set_cookies_empty_mapping: "set_cookies ios csof s2d c (CMapping []) = (None, c)"
  by (simp add: set_cookies_def Let_def)

text \<open>
  Claim C9, as the code has it. Assigning \<open>None\<close> to \<open>cookies\<close> clears the jar. Assigning
  a string that is empty once white space and then trailing semicolons are
  stripped, so any empty or whitespace-only string, or assigning an empty mapping,
  changes nothing: the jar keeps its cookies.
\<close>

theorem cookies_setter_empty_values:
  "jar (snd (set_cookies int_of_str cookies_str_of str_to_dict c CNone)) = []
   \<and> (rstrip_char CHR '';'' (strip s) = [] \<longrightarrow>
        set_cookies int_of_str cookies_str_of str_to_dict c (CStr s) = (None, c))
   \<and> (list_all is_space s \<longrightarrow>
        set_cookies int_of_str cookies_str_of str_to_dict c (CStr s) = (None, c))
   \<and> set_cookies int_of_str cookies_str_of str_to_dict c (CMapping []) = (None, c)"
  by (simp add: set_cookies_None_jar set_cookies_empty_str set_cookies_empty_mapping
        strip_all_space rstrip_char_def)

theorem cookies_setter_empty_values_witness:
  "jar (snd (set_cookies decimal join_cookies no_dict uid_client CNone)) = []
   \<and> set_cookies decimal join_cookies no_dict uid_client (CStr '' ;; '') = (None, uid_client)
   \<and> set_cookies decimal join_cookies no_dict uid_client (CStr ''  '') = (None, uid_client)
   \<and> set_cookies decimal join_cookies no_dict uid_client (CMapping []) = (None, uid_client)"
  using cookies_setter_empty_values [of decimal join_cookies no_dict uid_client "'' ;; ''"]
    cookies_setter_empty_values [of decimal join_cookies no_dict uid_client "''  ''"]
  by (simp add: strip_def rstrip_char_def is_space_def)

text \<open>
  A client that holds cookies still holds them after the empty string, a string
  of white space, or an empty mapping was assigned.
\<close>

theorem cookies_setter_empty_counterexample:
  "jar uid_client \<noteq> []
   \<and> jar (snd (set_cookies decimal join_cookies no_dict uid_client (CStr ''''))) = jar uid_client
   \<and> jar (snd (set_cookies decimal join_cookies no_dict uid_client (CStr ''  ''))) = jar uid_client
   \<and> jar (snd (set_cookies decimal join_cookies no_dict uid_client (CMapping []))) = jar uid_client"
  by code_simp

lemma split_on_not_Nil: "split_on sep s \<noteq> []"
  by (induction s) (auto split: list.splits)

lemma split_on_first:
  "sep \<notin> set a \<Longrightarrow> split_on sep (a @ sep # r) = a # split_on sep r"
  by (induction a) (auto split: list.splits)

lemma cookies_get_absent:
  "\<forall>ck\<in>set (jar_cookies j). ck_name ck \<noteq> name \<Longrightarrow> cookies_get j name = Inr None"
proof -
  assume "\<forall>ck\<in>set (jar_cookies j). ck_name ck \<noteq> name"
  then have "filter (\<lambda>c. ck_name c = name) (jar_cookies j) = []"
    by (simp add: filter_empty_conv)
  then show ?thesis by (simp add: cookies_get_def)
qed

lemma uid_parts:
  assumes "CHR ''_'' \<notin> set a" and "CHR ''_'' \<notin> set b"
  shows "\<exists>rest. split_on CHR ''_'' (a @ ''_'' @ b @ ''_'' @ r) = a # b # rest"
proof -
  have "split_on CHR ''_'' (a @ CHR ''_'' # (b @ CHR ''_'' # r)) =
        a # split_on CHR ''_'' (b @ CHR ''_'' # r)"
    using assms(1) by (rule split_on_first)
  also have "split_on CHR ''_'' (b @ CHR ''_'' # r) = b # split_on CHR ''_'' r"
    using assms(2) by (rule split_on_first)
  finally show ?thesis by simp
qed

text \<open>
  What the two accessors compute. \<open>user_id\<close> is a cached property: a cached value is
  returned as it is. For a client with no cached \<open>user_id\<close> whose jar has no UID
  cookie, \<open>user_id\<close> evaluates to 0; \<open>login_ssoent\<close>, which is not cached, evaluates
  to \<open>None\<close> whenever the jar has no UID cookie. When the jar has one UID cookie
  whose value has the form \<open>a_b_r\<close>, with no underscore in \<open>a\<close> and \<open>b\<close>, \<open>user_id\<close> (not
  cached) is \<open>int(a)\<close> (raising what \<open>int\<close> raises) and \<open>login_ssoent\<close> is \<open>b\<close>.
\<close>

lemma identity_uncached:
  "(user_id_cache c = None \<and> (\<forall>ck\<in>set (jar_cookies (jar c)). ck_name ck \<noteq> ''UID'') \<longrightarrow>
      fst (user_id int_of_str c) = Inr 0)
   \<and> ((\<forall>ck\<in>set (jar_cookies (jar c)). ck_name ck \<noteq> ''UID'') \<longrightarrow> login_ssoent c = Inr None)
   \<and> (\<forall>a b r. cookies_get (jar c) ''UID'' = Inr (Some (a @ ''_'' @ b @ ''_'' @ r)) \<and>
         CHR ''_'' \<notin> set a \<and> CHR ''_'' \<notin> set b \<longrightarrow>
         (user_id_cache c = None \<longrightarrow> fst (user_id int_of_str c) = int_of_str a) \<and>
         login_ssoent c = Inr (Some b))
   \<and> (\<forall>v. user_id_cache c = Some v \<longrightarrow> user_id int_of_str c = (Inr v, c))"
proof (intro conjI allI impI)
  assume a: "user_id_cache c = None \<and> (\<forall>ck\<in>set (jar_cookies (jar c)). ck_name ck \<noteq> ''UID'')"
  then have "cookies_get (jar c) ''UID'' = Inr None"
    by (simp add: cookies_get_absent)
  with a show "fst (user_id int_of_str c) = Inr 0"
    by (simp add: user_id_def user_id_body_def)
next
  assume "\<forall>ck\<in>set (jar_cookies (jar c)). ck_name ck \<noteq> ''UID''"
  then have "cookies_get (jar c) ''UID'' = Inr None"
    by (rule cookies_get_absent)
  then show "login_ssoent c = Inr None"
    by (simp add: login_ssoent_def)
next
  fix a b r
  assume h: "cookies_get (jar c) ''UID'' = Inr (Some (a @ ''_'' @ b @ ''_'' @ r)) \<and>
         CHR ''_'' \<notin> set a \<and> CHR ''_'' \<notin> set b"
  assume n: "user_id_cache c = None"
  from h uid_parts [of a b r] obtain rest where
    sp: "split_on CHR ''_'' (a @ ''_'' @ b @ ''_'' @ r) = a # b # rest" by blast
  show "fst (user_id int_of_str c) = int_of_str a"
    using h n sp by (cases "int_of_str a") (simp_all add: user_id_def user_id_body_def)
next
  fix a b r
  assume h: "cookies_get (jar c) ''UID'' = Inr (Some (a @ ''_'' @ b @ ''_'' @ r)) \<and>
         CHR ''_'' \<notin> set a \<and> CHR ''_'' \<notin> set b"
  from h uid_parts [of a b r] obtain rest where
    sp: "split_on CHR ''_'' (a @ ''_'' @ b @ ''_'' @ r) = a # b # rest" by blast
  show "login_ssoent c = Inr (Some b)"
    using h sp by (simp add: login_ssoent_def)
next
  fix v
  assume "user_id_cache c = Some v"
  then show "user_id int_of_str c = (Inr v, c)"
    by (simp add: user_id_def)
qed

lemma identity_uncached_examples:
  "fst (user_id decimal fresh_client) = Inr 0
   \<and> login_ssoent fresh_client = Inr None
   \<and> fst (user_id decimal (uid_client\<lparr>user_id_cache := None\<rparr>)) = Inr 1
   \<and> login_ssoent (uid_client\<lparr>user_id_cache := None\<rparr>) = Inr (Some ''A1'')
   \<and> user_id decimal uid_client = (Inr 1, uid_client)"
proof -
  have g: "cookies_get (jar (uid_client\<lparr>user_id_cache := None\<rparr>)) ''UID'' =
           Inr (Some (''1'' @ ''_'' @ ''A1'' @ ''_'' @ ''2''))"
    by code_simp
  have d: "decimal ''1'' = Inr 1"
    by code_simp
  have k: "user_id_cache uid_client = Some 1"
    by code_simp
  have f: "jar_cookies (jar fresh_client) = []" "user_id_cache fresh_client = None"
    by (simp_all add: fresh_client_def jar_cookies_def)
  from identity_uncached [of fresh_client decimal] f
  have 1: "fst (user_id decimal fresh_client) = Inr 0" "login_ssoent fresh_client = Inr None"
    by simp_all
  note t = identity_uncached [of "uid_client\<lparr>user_id_cache := None\<rparr>" decimal,
      THEN conjunct2, THEN conjunct2, THEN conjunct1, rule_format, of "''1''" "''A1''" "''2''"]
  from t g d
  have 2: "fst (user_id decimal (uid_client\<lparr>user_id_cache := None\<rparr>)) = Inr 1"
    "login_ssoent (uid_client\<lparr>user_id_cache := None\<rparr>) = Inr (Some ''A1'')"
    by simp_all
  from identity_uncached [of uid_client decimal] k
  have 3: "user_id decimal uid_client = (Inr 1, uid_client)"
    by simp
  from 1 2 3 show ?thesis by simp
qed

text \<open>
  Claim C10 says that \<open>user_id\<close> evaluates to 0 for every client whose jar has no UID
  cookie. A client is given its cookies, with the UID \<open>1_A1_2\<close>, and then \<open>None\<close> is
  assigned: the jar is empty, there is no UID cookie, \<open>login_ssoent\<close> is \<open>None\<close>, and
  \<open>user_id\<close> still evaluates to 1, the value cached when the cookies were set. The
  \<open>None\<close> branch of the setter returns before the cached \<open>user_id\<close> is dropped; the
  other branches drop it: assigning a mapping that removes the UID cookie gives 0.
\<close>

theorem user_id_stale_after_none:
  "uid_client = snd (set_cookies decimal join_cookies no_dict fresh_client
                      (CMapping [(''UID'', Some ''1_A1_2''), (''CID'', Some ''c'')]))
   \<and> jar (snd (set_cookies decimal join_cookies no_dict uid_client CNone)) = []
   \<and> cookies_get (jar (snd (set_cookies decimal join_cookies no_dict uid_client CNone))) ''UID'' = Inr None
   \<and> login_ssoent (snd (set_cookies decimal join_cookies no_dict uid_client CNone)) = Inr None
   \<and> fst (user_id decimal (snd (set_cookies decimal join_cookies no_dict uid_client CNone))) = Inr 1
   \<and> cookies_get (jar (snd (set_cookies decimal join_cookies no_dict uid_client
                               (CMapping [(''UID'', None)])))) ''UID'' = Inr None
   \<and> fst (user_id decimal (snd (set_cookies decimal join_cookies no_dict uid_client
                                   (CMapping [(''UID'', None)])))) = Inr 0"
  by code_simp

subsection \<open>Hashing in the two modes\<close>

lemma hash_modes_agree:
  "hash True opn file_length fd fd url dig start stop hdrs =
   (case opn url start hdrs True of
      Inl e \<Rightarrow> Inl e
    | Inr file \<Rightarrow>
        fd file (convert_digest dig)
          (map_option (\<lambda>s. max 0 ((if s < 0 then s + file_length file else s) - start)) stop))"
  by (simp add: hash_def Let_def split: sum.splits option.splits)

lemma hashes_async_stop_never_returns:
  "hashes True opn file_length fmd fmd_async url dig digs start (Some s) hdrs \<noteq> Inr r"
  by (simp add: hashes_def Let_def split: sum.splits)

text \<open>
  Claim C8 at \<open>hashes\<close> with a \<open>stop\<close>. On the same download, of 10 bytes, with \<open>stop = 4\<close>,
  the blocking form returns the size read and the digests; the non-blocking form
  raises \<open>TypeError\<close>.
\<close>

theorem hashes_modes_differ:
  "hashes False (open_content ''0123456789'') (content_length ''0123456789'')
      mdigest_content mdigest_content ''https://cdn.115.com/f'' (DName ''md5'') [DName ''crc32''] 0 (Some 4) None =
     Inr (4, [(DName ''md5'', ''0123''), (DCrc32, ''0123'')])
   \<and> hashes True (open_content ''0123456789'') (content_length ''0123456789'')
      mdigest_content mdigest_content ''https://cdn.115.com/f'' (DName ''md5'') [DName ''crc32''] 0 (Some 4) None =
     Inl TypeError"
  by (simp add: hashes_def open_content_def content_length_def mdigest_content_def Let_def)

end
